theory Spec2Isabelle
  imports Complex_Main "HOL-Library.Char_ord" "HOL-Library.List_Lexorder"
begin

section \<open>Session pairing (the \<open>fct_sessions\<close> query)\<close>

text \<open>
  The pairing query is the SQL of \<open>tests/test_pipeline.py\<close>
  (\<open>TestSessionPairing._run_pairing\<close> and \<open>TestIntegration._build_dim_fact_tables\<close>).
  A table is the list of its rows, in the order in which they are stored.  Columns are typed as
  the data model has them: \<open>user_id\<close> is a BIGINT (so \<open>CAST(user_id AS BIGINT)\<close> is the
  identity), a timestamp is an instant counted in microseconds since the epoch (so
  \<open>CAST("timestamp" AS TIMESTAMP)\<close> is the identity), and no column is NULL.
\<close>

record partition_key =
  user_id :: int
  mentor_id :: string

record raw_event = partition_key +
  event_id :: string
  event_type :: string
  timestamp :: nat

text \<open>The rows of the CTE \<open>starts\<close> (\<open>session_starts\<close>), aliased \<open>s\<close> in the join.\<close>

record starts_row =
  s_session_id :: string
  s_user_id :: int
  s_mentor_id :: string
  s_started_at :: nat
  s_next_start_at :: "nat option"

text \<open>The rows of the CTE \<open>ends\<close> (\<open>session_ends\<close>), aliased \<open>e\<close> in the join.\<close>

record ends_row =
  e_user_id :: int
  e_mentor_id :: string
  e_ended_at :: nat

text \<open>The rows of the CTE \<open>paired\<close>, and of \<open>fct_sessions\<close>, which adds the derived columns.\<close>

record paired_row = partition_key +
  session_id :: string
  started_at :: nat
  ended_at :: "nat option"

record fct_sessions_row = paired_row +
  duration_minutes :: int
  is_duration_estimated :: bool

text \<open>\<open>TRIM(mentor_id)\<close>: spaces are removed at both ends.\<close>

definition TRIM :: "string \<Rightarrow> string" where
  "TRIM s = rev (dropWhile (\<lambda>c. c = CHR '' '') (rev (dropWhile (\<lambda>c. c = CHR '' '') s)))"

text \<open>\<open>PARTITION BY CAST(user_id AS BIGINT), TRIM(mentor_id)\<close>.\<close>

definition partition_of :: "raw_event \<Rightarrow> int \<times> string" where
  "partition_of ev = (user_id ev, TRIM (mentor_id ev))"

text \<open>
  \<open>LEAD(CAST("timestamp" AS TIMESTAMP)) OVER (... ORDER BY "timestamp")\<close>: the value of
  the following row of the window, NULL on the last row.
\<close>

fun LEAD :: "raw_event list \<Rightarrow> nat option" where
  "LEAD [] = None"
| "LEAD (nxt # _) = Some (timestamp nxt)"

text \<open>The projection of \<open>starts\<close> over one window, given in the order of the window.\<close>

fun starts_window :: "raw_event list \<Rightarrow> starts_row list" where
  "starts_window [] = []"
| "starts_window (ev # rest) =
     \<lparr>s_session_id = event_id ev, s_user_id = user_id ev, s_mentor_id = TRIM (mentor_id ev),
      s_started_at = timestamp ev, s_next_start_at = LEAD rest\<rparr> # starts_window rest"

text \<open>
  The window of partition \<open>p\<close>: its rows ordered by timestamp.  SQL leaves the order of rows
  with equal timestamps open; here they keep the order of the table (\<open>sort_key\<close> is stable).
\<close>

definition window :: "raw_event list \<Rightarrow> int \<times> string \<Rightarrow> raw_event list" where
  "window rows p = sort_key timestamp (filter (\<lambda>ev. partition_of ev = p) rows)"

definition starts :: "raw_event list \<Rightarrow> starts_row list" where
  "starts raw_events =
     (let started = filter (\<lambda>ev. event_type ev = ''session_started'') raw_events
      in concat (map (\<lambda>p. starts_window (window started p)) (remdups (map partition_of started))))"

definition ends :: "raw_event list \<Rightarrow> ends_row list" where
  "ends raw_events =
     map (\<lambda>ev. \<lparr>e_user_id = user_id ev, e_mentor_id = TRIM (mentor_id ev), e_ended_at = timestamp ev\<rparr>)
       (filter (\<lambda>ev. event_type ev = ''session_ended'') raw_events)"

text \<open>The \<open>ON\<close> condition of the join.\<close>

definition join_on :: "starts_row \<Rightarrow> ends_row \<Rightarrow> bool" where
  "join_on s e =
     (s_user_id s = e_user_id e \<and> s_mentor_id s = e_mentor_id e \<and> e_ended_at e > s_started_at s
      \<and> (case s_next_start_at s of None \<Rightarrow> True | Some next_start \<Rightarrow> e_ended_at e < next_start))"

text \<open>
  \<open>starts s LEFT JOIN ends e ON ...\<close>: a start is joined with each end that meets the
  condition; a start without a match is kept, with a NULL \<open>e\<close>.
\<close>

definition join_rows :: "ends_row list \<Rightarrow> starts_row \<Rightarrow> (starts_row \<times> ends_row option) list" where
  "join_rows es s =
     (case filter (join_on s) es of
        [] \<Rightarrow> [(s, None)]
      | matches \<Rightarrow> map (\<lambda>e. (s, Some e)) matches)"

definition LEFT_JOIN :: "starts_row list \<Rightarrow> ends_row list \<Rightarrow> (starts_row \<times> ends_row option) list" where
  "LEFT_JOIN ss es = concat (map (join_rows es) ss)"

text \<open>The aggregate \<open>MIN\<close>: NULLs are skipped, and the result is NULL when nothing is left.\<close>

fun MIN_agg :: "nat option list \<Rightarrow> nat option" where
  "MIN_agg [] = None"
| "MIN_agg (None # vs) = MIN_agg vs"
| "MIN_agg (Some v # vs) = (case MIN_agg vs of None \<Rightarrow> Some v | Some m \<Rightarrow> Some (min v m))"

text \<open>\<open>GROUP BY s.session_id, s.user_id, s.mentor_id, s.started_at\<close>.\<close>

definition group_key :: "starts_row \<Rightarrow> string \<times> int \<times> string \<times> nat" where
  "group_key s = (s_session_id s, s_user_id s, s_mentor_id s, s_started_at s)"

fun group_row :: "string \<times> int \<times> string \<times> nat \<Rightarrow> nat option \<Rightarrow> paired_row" where
  "group_row (sid, uid, mid, st) end_min =
     \<lparr>user_id = uid, mentor_id = mid, session_id = sid, started_at = st, ended_at = end_min\<rparr>"

text \<open>One row per group of the joined rows, with \<open>MIN(e.ended_at)\<close> over the group.\<close>

definition GROUP_BY :: "(starts_row \<times> ends_row option) list \<Rightarrow> paired_row list" where
  "GROUP_BY joined =
     map (\<lambda>k. group_row k
                (MIN_agg (map (\<lambda>je. map_option e_ended_at (snd je))
                           (filter (\<lambda>je. group_key (fst je) = k) joined))))
       (remdups (map (\<lambda>je. group_key (fst je)) joined))"

definition paired :: "raw_event list \<Rightarrow> paired_row list" where
  "paired raw_events = GROUP_BY (LEFT_JOIN (starts raw_events) (ends raw_events))"

text \<open>\<open>_run_pairing\<close> ends with \<open>SELECT * FROM paired ORDER BY started_at\<close>.\<close>

definition run_pairing :: "raw_event list \<Rightarrow> paired_row list" where
  "run_pairing raw_events = sort_key started_at (paired raw_events)"

text \<open>
  \<open>DATEDIFF('minute', a, b)\<close> counts the minute boundaries between two instants: the
  difference of the instants truncated to the minute.
\<close>

definition DATEDIFF_minute :: "nat \<Rightarrow> nat \<Rightarrow> int" where
  "DATEDIFF_minute a b = int (b div 60000000) - int (a div 60000000)"

fun COALESCE :: "'a option \<Rightarrow> 'a \<Rightarrow> 'a" where
  "COALESCE None d = d"
| "COALESCE (Some v) _ = v"

text \<open>
  The final \<open>SELECT\<close> of \<open>fct_sessions\<close>.  The fixture writes the default duration as the
  literal 30, the value of \<open>default_session_duration_minutes\<close> that \<open>run_pipeline.main\<close>
  hands to the transformation as \<open>default_duration_minutes\<close>; it is the parameter
  \<open>default_duration_minutes\<close> here.  The columns \<open>session_hk\<close> (a hash) and
  \<open>session_date\<close> are left out.
\<close>

definition fct_sessions :: "int \<Rightarrow> raw_event list \<Rightarrow> fct_sessions_row list" where
  "fct_sessions default_duration_minutes raw_events =
     map (\<lambda>r. \<lparr>user_id = user_id r, mentor_id = mentor_id r, session_id = session_id r,
                started_at = started_at r, ended_at = ended_at r,
                duration_minutes =
                  COALESCE (map_option (DATEDIFF_minute (started_at r)) (ended_at r))
                    default_duration_minutes,
                is_duration_estimated = (ended_at r = None)\<rparr>)
       (paired raw_events)"

text \<open>
  The specification's duration of a session with an end: the time elapsed from the start to
  the end, \<open>end - start\<close>, in whole minutes.
\<close>

definition elapsed_whole_minutes :: "nat \<Rightarrow> nat \<Rightarrow> int" where
  "elapsed_whole_minutes a b = (int b - int a) div 60000000"

text \<open>The partition of a row of \<open>starts\<close>, and of a row of \<open>ends\<close>.\<close>

definition starts_key :: "starts_row \<Rightarrow> int \<times> string" where
  "starts_key s = (s_user_id s, s_mentor_id s)"

definition ends_key :: "ends_row \<Rightarrow> int \<times> string" where
  "ends_key e = (e_user_id e, e_mentor_id e)"

text \<open>
  The specification's candidate end events of a start \<open>S\<close>, as their timestamps:
  the \<open>session_ended\<close> events of the partition of \<open>S\<close> that lie strictly after \<open>S\<close>
  and, when the partition has later starts (\<open>later_starts\<close>, in the order of the window),
  strictly before the first of them.
\<close>

definition candidate_ends :: "raw_event list \<Rightarrow> raw_event \<Rightarrow> raw_event list \<Rightarrow> nat list" where
  "candidate_ends raw_events S later_starts =
     map timestamp
       (filter (\<lambda>E. event_type E = ''session_ended'' \<and> partition_of E = partition_of S
                    \<and> timestamp S < timestamp E
                    \<and> (case later_starts of [] \<Rightarrow> True
                        | next_start # _ \<Rightarrow> timestamp E < timestamp next_start))
          raw_events)"

text \<open>The row of \<open>starts\<close> that a start event gives, next to the value of \<open>LEAD\<close>.\<close>

definition start_row :: "raw_event \<Rightarrow> nat option \<Rightarrow> starts_row" where
  "start_row ev nxt = \<lparr>s_session_id = event_id ev, s_user_id = user_id ev, s_mentor_id = TRIM (mentor_id ev),
      s_started_at = timestamp ev, s_next_start_at = nxt\<rparr>"

text \<open>
  The events of the tests \<open>test_normal_pair\<close>, \<open>test_missing_end_event_yields_null_ended_at\<close>
  and \<open>test_lead_boundary_isolates_missing_end\<close>; 1735725600000000 is 2025-01-01 10:00:00.
\<close>

definition event :: "string \<Rightarrow> int \<Rightarrow> string \<Rightarrow> nat \<Rightarrow> string \<Rightarrow> raw_event" where
  "event eid uid mid ts ty =
     \<lparr>user_id = uid, mentor_id = mid, event_id = eid, event_type = ty, timestamp = ts\<rparr>"

definition normal_pair_events :: "raw_event list" where
  "normal_pair_events =
     [event ''e1'' 1 ''M01'' 1735725600000000 ''session_started'',
      event ''e2'' 1 ''M01'' 1735727400000000 ''session_ended'']"

definition missing_end_events :: "raw_event list" where
  "missing_end_events = [event ''e1'' 1 ''M01'' 1735725600000000 ''session_started'']"

definition lead_boundary_events :: "raw_event list" where
  "lead_boundary_events =
     [event ''e1'' 1 ''M01'' 1735725600000000 ''session_started'',
      event ''e3'' 1 ''M01'' 1735729200000000 ''session_started'',
      event ''e4'' 1 ''M01'' 1735731000000000 ''session_ended'']"

text \<open>
  A session of two seconds that crosses a minute boundary: it starts at 10:00:59
  (1735725659000000) and ends at 10:01:01 (1735725661000000).
\<close>

definition minute_boundary_events :: "raw_event list" where
  "minute_boundary_events =
     [event ''e1'' 1 ''M01'' 1735725659000000 ''session_started'',
      event ''e2'' 1 ''M01'' 1735725661000000 ''session_ended'']"

text \<open>
  The events of \<open>lead_boundary_events\<close> among events of other (user, mentor) pairs: another
  user with the same mentor, and the same user with another mentor.
\<close>

definition interleaved_events :: "raw_event list" where
  "interleaved_events =
     [event ''x1'' 2 ''M01'' 1735725000000000 ''session_started'',
      event ''e1'' 1 ''M01'' 1735725600000000 ''session_started'',
      event ''x2'' 1 ''M02'' 1735726000000000 ''session_started'',
      event ''x3'' 1 ''M02'' 1735727400000000 ''session_ended'',
      event ''e3'' 1 ''M01'' 1735729200000000 ''session_started'',
      event ''x4'' 2 ''M01'' 1735729300000000 ''session_ended'',
      event ''e4'' 1 ''M01'' 1735731000000000 ''session_ended'']"

section \<open>Configuration (\<open>config.py\<close>)\<close>

text \<open>
  \<open>PipelineConfig\<close>, field by field.  The orphan-rate threshold is a Python float; it is a
  real number here.
\<close>

record PipelineConfig =
  default_session_duration_minutes :: int
  tiers_group_a :: "string list"
  tiers_group_b :: "string list"
  rebooking_window_days :: "int option"
  dq_max_orphan_rate :: real
  dq_max_duration_minutes :: int
  environment :: string
  db_path :: string
  known_tiers :: "string list"
  step_timeout_seconds :: int

text \<open>
  The \<open>ValueError\<close>s of \<open>PipelineConfig.validate\<close>, one constructor per \<open>raise\<close>; the
  overlap error carries the overlapping tiers that its message lists.
\<close>

datatype ValueError =
    Tiers_group_a_empty
  | Tiers_group_b_empty
  | Tier_groups_overlap "string set"
  | Default_duration_not_positive
  | Rebooking_window_not_positive

definition validate :: "PipelineConfig \<Rightarrow> ValueError + unit" where
  "validate self =
     (if tiers_group_a self = [] then Inl Tiers_group_a_empty
      else if tiers_group_b self = [] then Inl Tiers_group_b_empty
      else let overlap = set (tiers_group_a self) \<inter> set (tiers_group_b self) in
        if overlap \<noteq> {} then Inl (Tier_groups_overlap overlap)
        else if default_session_duration_minutes self \<le> 0 then Inl Default_duration_not_positive
        else if (case rebooking_window_days self of None \<Rightarrow> False | Some days \<Rightarrow> days \<le> 0)
          then Inl Rebooking_window_not_positive
        else Inr ())"

section \<open>The entry point (\<open>run_pipeline.main\<close>)\<close>

text \<open>
  \<open>main\<close> is modelled by the order of its steps.  What the phases do is outside the model:
  the record of collaborators says what \<open>PipelineConfig.from_yaml\<close> loads and whether each phase raises
  (\<open>None\<close>: it completes).  The result is what \<open>main\<close> raises or that it returns, next to
  the phases it has started, in order.
\<close>

datatype phase = Ingest | Transform | Validate | Analyse

datatype exn = Value_Error ValueError | KeyError string | Phase_raised string

record collaborators =
  from_yaml :: PipelineConfig
  ingest_raises :: "string option"
  transform_raises :: "string option"
  validate_raises :: "string option"
  analyse_raises :: "string option"

text \<open>One phase inside the \<open>with StepTimer\<close> block: it is recorded, then it raises or goes on.\<close>

definition run_phase ::
  "phase \<Rightarrow> string option \<Rightarrow> phase list \<Rightarrow> (phase list \<Rightarrow> (exn + unit) \<times> phase list)
     \<Rightarrow> (exn + unit) \<times> phase list" where
  "run_phase ph raises started continue =
     (case raises of
        Some msg \<Rightarrow> (Inl (Phase_raised msg), started @ [ph])
      | None \<Rightarrow> continue (started @ [ph]))"

definition main :: "collaborators \<Rightarrow> PipelineConfig option \<Rightarrow> string \<Rightarrow> (exn + unit) \<times> phase list" where
  "main env config mode =
     (let config = (case config of None \<Rightarrow> from_yaml env | Some c \<Rightarrow> c) in
      case validate config of
        Inl err \<Rightarrow> (Inl (Value_Error err), [])
      | Inr _ \<Rightarrow>
          if mode \<notin> {''full'', ''ingest-only'', ''transform-only'', ''analysis-only''}
          then (Inl (KeyError mode), [])
          else
            let step4 = (\<lambda>started. run_phase Analyse (analyse_raises env) started (\<lambda>started. (Inr (), started)));
                step3 = (\<lambda>started.
                  if mode \<in> {''full'', ''transform-only''}
                  then run_phase Validate (validate_raises env) started
                         (\<lambda>started. if mode = ''transform-only'' then (Inr (), started) else step4 started)
                  else step4 started);
                step2 = (\<lambda>started.
                  if mode \<in> {''full'', ''transform-only''}
                  then run_phase Transform (transform_raises env) started step3
                  else step3 started)
            in if mode \<in> {''full'', ''ingest-only''}
               then run_phase Ingest (ingest_raises env) []
                      (\<lambda>started. if mode = ''ingest-only'' then (Inr (), started) else step2 started)
               else step2 [])"

text \<open>The field defaults of \<open>PipelineConfig\<close>, and the configuration of \<open>test_overlapping_tiers_raises\<close>.\<close>

definition default_config :: PipelineConfig where
  "default_config =
     \<lparr>default_session_duration_minutes = 30, tiers_group_a = [''Gold''],
      tiers_group_b = [''Silver'', ''Bronze''], rebooking_window_days = Some 30,
      dq_max_orphan_rate = 5 / 100, dq_max_duration_minutes = 240, environment = ''dev'',
      db_path = ''warehouse.duckdb'', known_tiers = [''Gold'', ''Silver'', ''Bronze''],
      step_timeout_seconds = 300\<rparr>"

definition overlapping_config :: PipelineConfig where
  "overlapping_config = default_config\<lparr>tiers_group_a := [''Gold''], tiers_group_b := [''Gold'', ''Silver'']\<rparr>"

definition all_phases_complete :: collaborators where
  "all_phases_complete =
     \<lparr>from_yaml = default_config, ingest_raises = None, transform_raises = None,
      validate_raises = None, analyse_raises = None\<rparr>"

section \<open>Data-quality checks (\<open>validate.py\<close>)\<close>

text \<open>
  The connection is the query engine, an external collaborator: it is modelled by what it
  answers to each query that \<open>run_checks\<close> sends.  \<open>con.execute(sql)\<close> raises
  \<open>duckdb.Error\<close>, returns \<open>None\<close>, or returns a result; fetching from a result raises
  \<open>duckdb.Error\<close> or returns what was fetched.  \<open>fetchone\<close> returns a row or \<open>None\<close>, and
  \<open>fetchall\<close> a list of rows or \<open>None\<close>; a column of a row is a value or NULL.
\<close>

datatype 'a fetch = Fetch_raises | Fetch_returns 'a

datatype 'a execute = Execute_raises | Execute_returns "'a fetch option"

record connection =
  check1_negative_durations :: "int option option execute"
  check4_duration_outliers :: "int \<Rightarrow> int option option execute"
  information_schema_tables :: "string \<Rightarrow> int option option execute"
  check5_orphan_rate :: "(int option \<times> int option) option execute"
  check6_existing_tiers :: "string \<Rightarrow> string option list option execute"
  check6_available_tiers :: "string option list option execute"

text \<open>
  The exceptions that can arise inside the \<open>try\<close> block of \<open>run_checks\<close>.  \<open>AttributeError\<close>
  is what \<open>_table_exists\<close> raises when \<open>con.execute\<close> returns \<open>None\<close>.
\<close>

datatype exception = DataQualityError string | duckdb_Error | AttributeError

text \<open>
  The entries of the two lists that \<open>run_checks\<close> returns.  An entry stands for the formatted
  string of the source: its constructor is the template, its arguments the interpolated values.
\<close>

datatype failure =
    Check1_failure int
  | Check6_failure "string list" "string option list"

datatype warning =
    Check4_warning int int
  | Check5_warning int int real

definition MAX_DURATION_MINS :: int where
  "MAX_DURATION_MINS = 240"

definition execute :: "'a execute \<Rightarrow> exception + 'a fetch option" where
  "execute reply = (case reply of Execute_raises \<Rightarrow> Inl duckdb_Error | Execute_returns result \<Rightarrow> Inr result)"

definition safe_fetchone :: "'a option fetch option \<Rightarrow> string \<Rightarrow> exception + 'a option" where
  "safe_fetchone result query_name =
     (case result of
        None \<Rightarrow> Inl (DataQualityError (''['' @ query_name @ ''] DuckDB returned None''))
      | Some Fetch_raises \<Rightarrow> Inl (DataQualityError (''['' @ query_name @ ''] DuckDB error''))
      | Some (Fetch_returns row) \<Rightarrow> Inr row)"

definition safe_fetchall :: "'a list option fetch option \<Rightarrow> string \<Rightarrow> exception + 'a list" where
  "safe_fetchall result query_name =
     (case result of
        None \<Rightarrow> Inl (DataQualityError (''['' @ query_name @ ''] DuckDB returned None''))
      | Some Fetch_raises \<Rightarrow> Inl (DataQualityError (''['' @ query_name @ ''] DuckDB error''))
      | Some (Fetch_returns rows) \<Rightarrow> Inr (case rows of None \<Rightarrow> [] | Some rs \<Rightarrow> rs))"

text \<open>\<open>_table_exists\<close>: \<open>bool(row and row[0])\<close> of the row fetched, without \<open>safe_fetchone\<close>.\<close>

definition table_exists :: "connection \<Rightarrow> string \<Rightarrow> exception + bool" where
  "table_exists con name =
     (case information_schema_tables con name of
        Execute_raises \<Rightarrow> Inl duckdb_Error
      | Execute_returns None \<Rightarrow> Inl AttributeError
      | Execute_returns (Some Fetch_raises) \<Rightarrow> Inl duckdb_Error
      | Execute_returns (Some (Fetch_returns row)) \<Rightarrow>
          Inr (case row of None \<Rightarrow> False | Some None \<Rightarrow> False | Some (Some n) \<Rightarrow> n \<noteq> 0))"

text \<open>Check 1: no negative durations.\<close>

definition check1 :: "connection \<Rightarrow> exception + failure list" where
  "check1 con =
     (case execute (check1_negative_durations con) of Inl e \<Rightarrow> Inl e | Inr result \<Rightarrow>
      case safe_fetchone result ''Check 1: negative durations'' of Inl e \<Rightarrow> Inl e | Inr row \<Rightarrow>
      case row of
        None \<Rightarrow> Inl (DataQualityError ''Check 1: empty result from COUNT query'')
      | Some None \<Rightarrow> Inl (DataQualityError ''Check 1: COUNT(*) returned None'')
      | Some (Some neg_count) \<Rightarrow> Inr (if neg_count > 0 then [Check1_failure neg_count] else []))"

text \<open>Check 4: duration outliers, a warning only.\<close>

definition check4 :: "connection \<Rightarrow> int \<Rightarrow> exception + warning list" where
  "check4 con max_duration_mins =
     (case execute (check4_duration_outliers con max_duration_mins) of Inl e \<Rightarrow> Inl e | Inr result \<Rightarrow>
      case safe_fetchone result ''Check 4: duration outliers'' of Inl e \<Rightarrow> Inl e | Inr check4_result \<Rightarrow>
      case check4_result of
        None \<Rightarrow> Inl (DataQualityError ''Check 4: empty result from outlier check'')
      | Some None \<Rightarrow> Inl (DataQualityError ''Check 4: outlier count is None'')
      | Some (Some outlier_count) \<Rightarrow>
          Inr (if outlier_count > 0 then [Check4_warning outlier_count max_duration_mins] else []))"

text \<open>Check 5: the booking orphan rate, run only when \<open>fct_bookings\<close> exists.\<close>

definition check5 :: "connection \<Rightarrow> PipelineConfig option \<Rightarrow> exception + warning list" where
  "check5 con config =
     (case table_exists con ''fct_bookings'' of Inl e \<Rightarrow> Inl e | Inr has_fct_bookings \<Rightarrow>
      if has_fct_bookings then
        (case execute (check5_orphan_rate con) of Inl e \<Rightarrow> Inl e | Inr result \<Rightarrow>
         case safe_fetchone result ''Check 5: booking orphan rate'' of Inl e \<Rightarrow> Inl e | Inr row \<Rightarrow>
         case row of
           None \<Rightarrow> Inl (DataQualityError ''Check 5: empty result from orphan check'')
         | Some (None, _) \<Rightarrow> Inl (DataQualityError ''Check 5: NULL values returned from orphan check'')
         | Some (Some _, None) \<Rightarrow> Inl (DataQualityError ''Check 5: NULL values returned from orphan check'')
         | Some (Some total_bookings, Some orphan_count) \<Rightarrow>
             if total_bookings > 0 then
               let orphan_rate = real_of_int orphan_count / real_of_int total_bookings;
                   threshold = (case config of Some c \<Rightarrow> dq_max_orphan_rate c | None \<Rightarrow> 5 / 100)
               in Inr (if orphan_rate > threshold
                       then [Check5_warning orphan_count total_bookings threshold] else [])
             else Inr [])
      else Inr [])"

text \<open>
  Check 6: the configured tiers must exist in \<open>dim_mentors\<close>.  \<open>placeholders\<close> is the text of
  the \<open>IN\<close> list: each tier between single quotes, its own single quotes doubled.
\<close>

definition escape_quotes :: "string \<Rightarrow> string" where
  "escape_quotes t = concat (map (\<lambda>c. if c = CHR 0x27 then [CHR 0x27, CHR 0x27] else [c]) t)"

fun join :: "string \<Rightarrow> string list \<Rightarrow> string" where
  "join sep [] = []"
| "join sep [s] = s"
| "join sep (s # rest) = s @ sep @ join sep rest"

definition placeholders :: "string list \<Rightarrow> string" where
  "placeholders all_configured =
     join '', '' (map (\<lambda>t. [CHR 0x27] @ t @ [CHR 0x27]) (map escape_quotes all_configured))"

definition check6 :: "connection \<Rightarrow> PipelineConfig option \<Rightarrow> exception + failure list" where
  "check6 con config =
     (case config of
        None \<Rightarrow> Inr []
      | Some c \<Rightarrow>
          let all_configured = tiers_group_a c @ tiers_group_b c in
          if all_configured = [] then Inr []
          else
            (case execute (check6_existing_tiers con (placeholders all_configured)) of Inl e \<Rightarrow> Inl e | Inr result \<Rightarrow>
             case safe_fetchall result ''Check 6: existing tiers'' of Inl e \<Rightarrow> Inl e | Inr existing \<Rightarrow>
             case execute (check6_available_tiers con) of Inl e \<Rightarrow> Inl e | Inr result \<Rightarrow>
             case safe_fetchall result ''Check 6: available tiers'' of Inl e \<Rightarrow> Inl e | Inr available \<Rightarrow>
             let missing_tiers = filter (\<lambda>t. Some t \<notin> set existing) all_configured in
             Inr (if missing_tiers \<noteq> [] then [Check6_failure missing_tiers available] else [])))"

text \<open>The body of the \<open>try\<close> block: the checks in order, the first exception ends it.\<close>

definition run_checks_try :: "connection \<Rightarrow> PipelineConfig option \<Rightarrow> exception + failure list \<times> warning list" where
  "run_checks_try con config =
     (let max_duration_mins = (case config of Some c \<Rightarrow> dq_max_duration_minutes c | None \<Rightarrow> MAX_DURATION_MINS) in
      case check1 con of Inl e \<Rightarrow> Inl e | Inr failures1 \<Rightarrow>
      case check4 con max_duration_mins of Inl e \<Rightarrow> Inl e | Inr warnings4 \<Rightarrow>
      case check5 con config of Inl e \<Rightarrow> Inl e | Inr warnings5 \<Rightarrow>
      case check6 con config of Inl e \<Rightarrow> Inl e | Inr failures6 \<Rightarrow>
      Inr (failures1 @ failures6, warnings4 @ warnings5))"

text \<open>
  The \<open>except\<close> clauses: a \<open>DataQualityError\<close> is raised again, a \<open>duckdb.Error\<close> and any
  other exception become a \<open>DataQualityError\<close>.
\<close>

definition run_checks :: "connection \<Rightarrow> PipelineConfig option \<Rightarrow> exception + failure list \<times> warning list" where
  "run_checks con config =
     (case run_checks_try con config of
        Inl (DataQualityError msg) \<Rightarrow> Inl (DataQualityError msg)
      | Inl duckdb_Error \<Rightarrow> Inl (DataQualityError ''Database error'')
      | Inl AttributeError \<Rightarrow> Inl (DataQualityError ''Unexpected error'')
      | Inr result \<Rightarrow> Inr result)"

text \<open>
  The specification's infrastructure failures.  A query gives no result when it raises a
  database error, when the engine hands back \<open>None\<close> for its result, or when fetching raises;
  it gives no count when, besides, no row comes back or the count is NULL.  The query of
  Check 5 gives two numbers, \<open>COUNT(*)\<close> and a \<open>SUM\<close> over the rows: the \<open>SUM\<close> of no
  rows is NULL by the rules of SQL, so a NULL sum next to the count 0 is the answer that an
  empty table gives and no failure (the specification skips the check for an empty table);
  a NULL sum next to any other count is data missing where it was expected.
\<close>

fun no_result :: "'a execute \<Rightarrow> bool" where
  "no_result Execute_raises = True"
| "no_result (Execute_returns None) = True"
| "no_result (Execute_returns (Some Fetch_raises)) = True"
| "no_result (Execute_returns (Some (Fetch_returns _))) = False"

fun no_count :: "int option option execute \<Rightarrow> bool" where
  "no_count (Execute_returns (Some (Fetch_returns (Some (Some _))))) = False"
| "no_count _ = True"

fun no_orphan_counts :: "(int option \<times> int option) option execute \<Rightarrow> bool" where
  "no_orphan_counts (Execute_returns (Some (Fetch_returns (Some (Some _, Some _))))) = False"
| "no_orphan_counts (Execute_returns (Some (Fetch_returns (Some (Some total_bookings, None))))) =
     (total_bookings \<noteq> 0)"
| "no_orphan_counts _ = True"

text \<open>The answer of the query of Check 5 over an empty table: the count 0 and a NULL sum.\<close>

fun empty_fct_bookings :: "(int option \<times> int option) option execute \<Rightarrow> bool" where
  "empty_fct_bookings (Execute_returns (Some (Fetch_returns (Some (Some total_bookings, None))))) =
     (total_bookings = 0)"
| "empty_fct_bookings _ = False"

fun reports_table :: "int option option execute \<Rightarrow> bool" where
  "reports_table (Execute_returns (Some (Fetch_returns (Some (Some n))))) = (n \<noteq> 0)"
| "reports_table _ = False"

text \<open>
  An infrastructure failure of a run: one of the queries that the run sends gives no result
  where one is needed.  The table lookup of Check 5 needs a result only (no row or a NULL count
  reads as "no such table"), the counts of Checks 1 and 4 must be there, the counts of Check 5
  must be there unless the table is empty, and the queries of Check 6 are sent only for a
  configuration that names a tier (no rows read as no tiers).
\<close>

definition infrastructure_failure :: "connection \<Rightarrow> PipelineConfig option \<Rightarrow> bool" where
  "infrastructure_failure con config =
     (no_count (check1_negative_durations con)
      \<or> no_count (check4_duration_outliers con
            (case config of Some c \<Rightarrow> dq_max_duration_minutes c | None \<Rightarrow> 240))
      \<or> no_result (information_schema_tables con ''fct_bookings'')
      \<or> (reports_table (information_schema_tables con ''fct_bookings'')
          \<and> no_orphan_counts (check5_orphan_rate con))
      \<or> (case config of
            None \<Rightarrow> False
          | Some c \<Rightarrow>
              tiers_group_a c @ tiers_group_b c \<noteq> []
              \<and> (no_result (check6_existing_tiers con (placeholders (tiers_group_a c @ tiers_group_b c)))
                 \<or> no_result (check6_available_tiers con))))"

text \<open>
  The two queries of Check 6 as SQL reads them over the \<open>tier\<close> column of \<open>dim_mentors\<close>
  (a tier may be NULL): \<open>SELECT DISTINCT tier FROM dim_mentors WHERE tier IN (...)\<close>, where a
  NULL tier is in no list, and \<open>SELECT DISTINCT tier FROM dim_mentors ORDER BY tier\<close>, with
  NULL last.  A string literal of the \<open>IN\<close> list denotes the tier it was made from:
  \<open>sql_literal_value\<close> reads a literal's body, a doubled quote standing for one quote.
\<close>

fun sql_literal_value :: "string \<Rightarrow> string" where
  "sql_literal_value (c # d # rest) =
     (if c = CHR 0x27 \<and> d = CHR 0x27 then c # sql_literal_value rest
      else c # sql_literal_value (d # rest))"
| "sql_literal_value cs = cs"

definition SELECT_DISTINCT_tier_IN :: "string option list \<Rightarrow> string list \<Rightarrow> string option list" where
  "SELECT_DISTINCT_tier_IN dim_mentors tiers =
     remdups (filter (\<lambda>tier. case tier of None \<Rightarrow> False | Some v \<Rightarrow> v \<in> set tiers) dim_mentors)"

definition SELECT_DISTINCT_tier_ORDER_BY_tier :: "string option list \<Rightarrow> string option list" where
  "SELECT_DISTINCT_tier_ORDER_BY_tier dim_mentors =
     map Some (sort (remdups (concat (map (\<lambda>tier. case tier of None \<Rightarrow> [] | Some v \<Rightarrow> [v]) dim_mentors))))
     @ (if None \<in> set dim_mentors then [None] else [])"

text \<open>
  The engine's answers over the database of \<open>_seed_clean_db\<close>: no negative duration, no
  outlier, no table \<open>fct_bookings\<close> (so that its query would raise), the tiers Gold and Silver.
  \<open>negative_duration_con\<close> answers after the update of \<open>test_check1_fails_on_negative_duration\<close>,
  and \<open>broken_con\<close> hands back \<open>None\<close> for the first query.
\<close>

definition seed_dim_mentors :: "string option list" where
  "seed_dim_mentors = [Some ''Gold'', Some ''Silver'']"

definition clean_db_con :: connection where
  "clean_db_con =
     \<lparr>check1_negative_durations = Execute_returns (Some (Fetch_returns (Some (Some 0)))),
      check4_duration_outliers = (\<lambda>max_duration_mins. Execute_returns (Some (Fetch_returns (Some (Some 0))))),
      information_schema_tables = (\<lambda>name. Execute_returns (Some (Fetch_returns (Some (Some 0))))),
      check5_orphan_rate = Execute_raises,
      check6_existing_tiers = (\<lambda>in_list.
        if in_list = placeholders [''Diamond'', ''Silver'']
        then Execute_returns (Some (Fetch_returns (Some
               (SELECT_DISTINCT_tier_IN seed_dim_mentors [''Diamond'', ''Silver'']))))
        else Execute_raises),
      check6_available_tiers =
        Execute_returns (Some (Fetch_returns (Some (SELECT_DISTINCT_tier_ORDER_BY_tier seed_dim_mentors))))\<rparr>"

definition negative_duration_con :: connection where
  "negative_duration_con =
     clean_db_con\<lparr>check1_negative_durations := Execute_returns (Some (Fetch_returns (Some (Some 1))))\<rparr>"

definition broken_con :: connection where
  "broken_con = clean_db_con\<lparr>check1_negative_durations := Execute_returns None\<rparr>"

text \<open>
  The database of \<open>_seed_clean_db\<close> after \<open>fct_bookings\<close> has been created and before it
  holds a row: the lookup in \<open>information_schema.tables\<close> counts one table, and the query of
  Check 5 answers with \<open>COUNT(*) = 0\<close> and a NULL \<open>SUM\<close>.
\<close>

definition empty_bookings_con :: connection where
  "empty_bookings_con =
     clean_db_con
       \<lparr>information_schema_tables := (\<lambda>name. Execute_returns (Some (Fetch_returns (Some (Some 1))))),
        check5_orphan_rate := Execute_returns (Some (Fetch_returns (Some (Some 0, None))))\<rparr>"


text \<open>
  A database with one session of 300 minutes (\<open>test_check4_warns_but_does_not_fail_on_outlier\<close>)
  and a table \<open>fct_bookings\<close> of ten bookings, one of them an orphan request; and a
  configuration that names no tier and carries the built-in thresholds.
\<close>

definition outlier_con :: connection where
  "outlier_con =
     clean_db_con
       \<lparr>check4_duration_outliers := (\<lambda>max_duration_mins.
          Execute_returns (Some (Fetch_returns (Some (Some (if max_duration_mins < 300 then 1 else 0)))))),
        information_schema_tables := (\<lambda>name. Execute_returns (Some (Fetch_returns (Some (Some 1))))),
        check5_orphan_rate := Execute_returns (Some (Fetch_returns (Some (Some 10, Some 1))))\<rparr>"

definition no_tiers_config :: PipelineConfig where
  "no_tiers_config = default_config\<lparr>tiers_group_a := [], tiers_group_b := []\<rparr>"

section \<open>Ingestion (\<open>ingest.py\<close>)\<close>

text \<open>
  A row of a raw table or of a staged frame is its primary-key column, which may be NULL,
  next to its other columns.  The warehouse holds the three raw tables; \<open>None\<close> says that a
  table does not exist.  A source is the list of rows that \<open>pl.read_csv\<close> or
  \<open>pl.DataFrame(events)\<close> builds from the file; the pre-flight validation of the file and the
  row-wise conversions of the columns that are not keys are left out.
\<close>

record ('u, 'm, 'e) warehouse =
  raw_users_table :: "(int option \<times> 'u) list option"
  raw_mentors_table :: "(string option \<times> string option \<times> int) list option"
  raw_events_table :: "(string option \<times> int option \<times> 'e) list option"

text \<open>
  SQL's \<open>r.pk = s.pk\<close> in a \<open>WHERE\<close> clause: the comparison holds for two equal values, and it
  does not hold when a side is NULL.
\<close>

fun sql_equal :: "'k option \<Rightarrow> 'k option \<Rightarrow> bool" where
  "sql_equal (Some a) (Some b) = (a = b)"
| "sql_equal _ _ = False"

text \<open>\<open>NOT EXISTS (SELECT 1 FROM table r WHERE r.pk = s.pk)\<close> for a staged row \<open>s\<close>.\<close>

definition NOT_EXISTS :: "('k option \<times> 'c) list \<Rightarrow> 'k option \<times> 'c \<Rightarrow> bool" where
  "NOT_EXISTS table s = (\<not> list_ex (\<lambda>r. sql_equal (fst r) (fst s)) table)"

text \<open>\<open>_incremental_insert\<close>: the table afterwards, and the count of new rows that it returns.\<close>

definition incremental_insert ::
  "('k option \<times> 'c) list \<Rightarrow> ('k option \<times> 'c) list \<Rightarrow> ('k option \<times> 'c) list \<times> nat" where
  "incremental_insert table df =
     (let new_rows = length (filter (NOT_EXISTS table) df)
      in (if new_rows > 0 then table @ filter (NOT_EXISTS table) df else table, new_rows))"

text \<open>\<open>df.unique(subset=[pk], keep="first", maintain_order=True)\<close>; NULL keys count as equal.\<close>

fun unique_first :: "('k \<times> 'c) list \<Rightarrow> ('k \<times> 'c) list" where
  "unique_first [] = []"
| "unique_first (row # rows) = row # unique_first (filter (\<lambda>r. fst r \<noteq> fst row) rows)"

text \<open>
  \<open>ingest_users\<close>.  The source gives \<open>user_id\<close> as text (or NULL); \<open>cast_Int64\<close> is the
  non-strict cast of polars, NULL where the text is no integer.  The rows with a NULL
  \<open>user_id\<close> are dropped before the duplicates.
\<close>

definition users_frame :: "(string \<Rightarrow> int option) \<Rightarrow> (string option \<times> 'u) list \<Rightarrow> (int option \<times> 'u) list" where
  "users_frame cast_Int64 src =
     (let df = map (\<lambda>(user_id, cols). (Option.bind user_id cast_Int64, cols)) src;
          df = filter (\<lambda>r. fst r \<noteq> None) df
      in unique_first df)"

definition ingest_users ::
  "(string \<Rightarrow> int option) \<Rightarrow> ('u, 'm, 'e) warehouse \<Rightarrow> (string option \<times> 'u) list
     \<Rightarrow> ('u, 'm, 'e) warehouse \<times> nat" where
  "ingest_users cast_Int64 con src =
     (let df = users_frame cast_Int64 src in
      case raw_users_table con of
        None \<Rightarrow> (con\<lparr>raw_users_table := Some df\<rparr>, length df)
      | Some table \<Rightarrow>
          (let (table', new_rows) = incremental_insert table df
           in (con\<lparr>raw_users_table := Some table'\<rparr>, new_rows)))"

text \<open>
  \<open>ingest_events\<close>.  An event of the source gives \<open>event_id\<close> (NULL when the JSON has none) and
  \<open>user_id\<close> as text.  The events with an unparseable \<open>user_id\<close> are dropped; the frame is
  deduplicated by \<open>event_id\<close> when an \<open>event_id\<close> occurs twice.  Nothing drops an event whose
  \<open>event_id\<close> is NULL.
\<close>

definition events_frame ::
  "(string \<Rightarrow> int option) \<Rightarrow> (string option \<times> string option \<times> 'e) list
     \<Rightarrow> (string option \<times> int option \<times> 'e) list" where
  "events_frame cast_Int64 events =
     (let df = map (\<lambda>(event_id, user_id, cols). (event_id, Option.bind user_id cast_Int64, cols)) events;
          df = filter (\<lambda>(event_id, user_id, cols). user_id \<noteq> None) df
      in if \<not> distinct (map fst df) then unique_first df else df)"

definition ingest_events ::
  "(string \<Rightarrow> int option) \<Rightarrow> ('u, 'm, 'e) warehouse \<Rightarrow> (string option \<times> string option \<times> 'e) list
     \<Rightarrow> ('u, 'm, 'e) warehouse \<times> nat" where
  "ingest_events cast_Int64 con events =
     (let df = events_frame cast_Int64 events in
      case raw_events_table con of
        None \<Rightarrow> (con\<lparr>raw_events_table := Some df\<rparr>, length df)
      | Some table \<Rightarrow>
          (let (table', new_rows) = incremental_insert table df
           in (con\<lparr>raw_events_table := Some table'\<rparr>, new_rows)))"

text \<open>
  \<open>ingest_mentors\<close>: the columns are normalised (\<open>strip_chars\<close> and \<open>to_titlecase\<close> are the
  string functions of polars, \<open>hourly_rate\<close> is cast and its NULLs become 0), a NULL tier
  raises \<open>ValueError\<close> before the warehouse is touched, and the table is dropped and created
  again from the frame.
\<close>

datatype ingest_error = Null_tier_ValueError nat

definition mentors_frame ::
  "(string \<Rightarrow> string) \<Rightarrow> (string \<Rightarrow> string) \<Rightarrow> (string option \<times> string option \<times> int option) list
     \<Rightarrow> (string option \<times> string option \<times> int) list" where
  "mentors_frame strip_chars to_titlecase src =
     map (\<lambda>(mentor_id, tier, hourly_rate).
            (map_option strip_chars mentor_id,
             map_option (\<lambda>t. to_titlecase (strip_chars t)) tier,
             (case hourly_rate of None \<Rightarrow> 0 | Some rate \<Rightarrow> rate))) src"

definition ingest_mentors ::
  "(string \<Rightarrow> string) \<Rightarrow> (string \<Rightarrow> string) \<Rightarrow> ('u, 'm, 'e) warehouse
     \<Rightarrow> (string option \<times> string option \<times> int option) list \<Rightarrow> ingest_error + ('u, 'm, 'e) warehouse" where
  "ingest_mentors strip_chars to_titlecase con src =
     (let df = mentors_frame strip_chars to_titlecase src;
          null_tiers = length (filter (\<lambda>(mentor_id, tier, hourly_rate). tier = None) df)
      in if null_tiers > 0 then Inl (Null_tier_ValueError null_tiers)
         else Inr (con\<lparr>raw_mentors_table := Some df\<rparr>))"

text \<open>
  An events file of two events, the first without an \<open>event_id\<close>, and a cast that reads the
  user ids of the file.
\<close>

definition null_id_events :: "(string option \<times> string option \<times> string) list" where
  "null_id_events = [(None, Some ''1'', ''session_started''), (Some ''e2'', Some ''1'', ''session_ended'')]"

definition cast_digit :: "string \<Rightarrow> int option" where
  "cast_digit s = (if s = ''1'' then Some 1 else if s = ''2'' then Some 2 else None)"

definition empty_warehouse :: "(unit, unit, string) warehouse" where
  "empty_warehouse = \<lparr>raw_users_table = None, raw_mentors_table = None, raw_events_table = None\<rparr>"

section \<open>The step timeout guard (\<open>utils.py\<close>)\<close>

text \<open>
  \<open>StepTimer\<close> runs one watcher thread next to the guarded block.  The two meet in the event
  \<open>_done\<close> only, which \<open>__exit__\<close> sets when the block has ended.  Time is counted in seconds
  from \<open>__enter__\<close>; a run is described by the instant \<open>done_at\<close> at which \<open>_done\<close> is set
  (\<open>None\<close>: never, the block does not come back).  The watcher is then a sequential program,
  and what it delivers is the list of its cancellations: the soft kill
  (\<open>PyThreadState_SetAsyncExc\<close> with \<open>PipelineTimeoutError\<close>) and the hard kill (\<open>os._exit(1)\<close>).
\<close>

datatype cancellation = Soft_kill | Hard_kill

record StepTimer =
  step_name :: string
  timeout :: "real option"
  main_thread_id :: "int option"
  watcher :: bool

definition GRACE_SECONDS :: real where
  "GRACE_SECONDS = 10"

text \<open>\<open>__init__\<close>: no thread identifier yet, no watcher.\<close>

definition StepTimer_init :: "string \<Rightarrow> real option \<Rightarrow> StepTimer" where
  "StepTimer_init name timeout_seconds =
     \<lparr>step_name = name, timeout = timeout_seconds, main_thread_id = None, watcher = False\<rparr>"

text \<open>The truth value of \<open>self._timeout\<close>: \<open>None\<close> and zero are false.\<close>

definition truthy :: "real option \<Rightarrow> bool" where
  "truthy t = (case t of None \<Rightarrow> False | Some seconds \<Rightarrow> seconds \<noteq> 0)"

text \<open>
  \<open>_done.wait(seconds)\<close>, called at the instant \<open>now\<close>: true if and only if the event is set
  by the end of the wait (a wait for a negative time ends at once).
\<close>

definition Event_wait :: "real option \<Rightarrow> real \<Rightarrow> real \<Rightarrow> bool" where
  "Event_wait done_at now seconds =
     (case done_at of None \<Rightarrow> False | Some t \<Rightarrow> t \<le> now + max seconds 0)"

text \<open>\<open>_watchdog\<close>, run by the watcher thread from the instant 0.\<close>

definition watchdog :: "StepTimer \<Rightarrow> real option \<Rightarrow> cancellation list" where
  "watchdog self done_at =
     (case timeout self of
        None \<Rightarrow> []
      | Some seconds \<Rightarrow>
          if seconds = 0 then []
          else if Event_wait done_at 0 seconds then []
          else (if main_thread_id self \<noteq> None then [Soft_kill] else [])
               @ (if \<not> Event_wait done_at (max seconds 0) GRACE_SECONDS then [Hard_kill] else []))"

text \<open>\<open>__enter__\<close>, called by the thread \<open>ident\<close>: the watcher is created and started only for a true timeout.\<close>

definition StepTimer_enter :: "StepTimer \<Rightarrow> int \<Rightarrow> StepTimer" where
  "StepTimer_enter self ident =
     (if truthy (timeout self) then self\<lparr>main_thread_id := Some ident, watcher := True\<rparr> else self)"

text \<open>
  The cancellations delivered while \<open>with StepTimer(name, timeout_seconds)\<close> guards a block:
  those of the watcher, if one has been started.
\<close>

definition guard :: "string \<Rightarrow> real option \<Rightarrow> int \<Rightarrow> real option \<Rightarrow> cancellation list" where
  "guard name timeout_seconds ident done_at =
     (let self = StepTimer_enter (StepTimer_init name timeout_seconds) ident
      in if watcher self then watchdog self done_at else [])"

section \<open>The Wilson interval (\<open>run_pipeline._wilson_ci\<close>)\<close>

text \<open>
  A Python float is an IEEE 754 binary64 number.  A finite float is modelled by its value, a real
  number; an arithmetic operation gives the exact result rounded to the nearest
  number with 53 significant bits, ties to the even one.  The range of the exponent is not
  bounded in the model: overflow and underflow, which counts below \<open>10^150\<close> do not reach, are
  left out.
\<close>

function bitlength :: "int \<Rightarrow> int" where
  "bitlength n = (if n \<le> 0 then 0 else 1 + bitlength (n div 2))"
  by pat_completeness auto
termination
  by (relation "measure nat") auto

declare bitlength.simps [simp del]

text \<open>The exponent of a positive number: the \<open>e\<close> with \<open>2^e \<le> x < 2^(e+1)\<close>.\<close>

definition exponent :: "real \<Rightarrow> int" where
  "exponent x = (if x \<ge> 1 then bitlength \<lfloor>x\<rfloor> - 1 else - bitlength (\<lceil>1 / x\<rceil> - 1))"

definition pow2 :: "int \<Rightarrow> real" where
  "pow2 e = (if e \<ge> 0 then 2 ^ nat e else 1 / 2 ^ nat (- e))"

definition round_half_even :: "real \<Rightarrow> int" where
  "round_half_even q =
     (let m = \<lfloor>q\<rfloor>; r = q - of_int m
      in if r < 1 / 2 then m else if r > 1 / 2 then m + 1 else if even m then m else m + 1)"

text \<open>Rounding to binary64: the unit in the last place of \<open>x\<close> is \<open>2^(e - 52)\<close>.\<close>

definition float :: "real \<Rightarrow> real" where
  "float x =
     (if x = 0 then 0
      else let ulp = pow2 (exponent \<bar>x\<bar> - 52)
           in sgn x * of_int (round_half_even (\<bar>x\<bar> / ulp)) * ulp)"

definition f64_add :: "real \<Rightarrow> real \<Rightarrow> real" where
  "f64_add a b = float (a + b)"

definition f64_sub :: "real \<Rightarrow> real \<Rightarrow> real" where
  "f64_sub a b = float (a - b)"

definition f64_mul :: "real \<Rightarrow> real \<Rightarrow> real" where
  "f64_mul a b = float (a * b)"

definition f64_div :: "real \<Rightarrow> real \<Rightarrow> real" where
  "f64_div a b = float (a / b)"

text \<open>The integer square root, rounded down.\<close>

function isqrt :: "int \<Rightarrow> int" where
  "isqrt n = (if n < 2 then n else let r = 2 * isqrt (n div 4) in if (r + 1) * (r + 1) \<le> n then r + 1 else r)"
  by pat_completeness auto
termination
  by (relation "measure nat") auto

declare isqrt.simps [simp del]

text \<open>
  \<open>math.sqrt\<close> of a float that is not negative: the square root rounded to binary64.  The root
  is taken of \<open>x * 4^k\<close>, rounded down to an integer \<open>s\<close> of 55 bits or more; when the root is
  not \<open>s\<close> itself it lies strictly between \<open>s\<close> and \<open>s + 1\<close>, where no float and no midpoint
  of two floats lies, so that it rounds as \<open>s + 1/2\<close> does.
\<close>

definition f64_sqrt :: "real \<Rightarrow> real" where
  "f64_sqrt x =
     (if x = 0 then 0
      else let k = 54 + nat (- exponent x);
               t = x * 4 ^ k;
               s = isqrt \<lfloor>t\<rfloor>;
               sticky = (if of_int (s * s) = t then 0 else 1 / 2)
           in float ((of_int s + sticky) / 2 ^ k))"

datatype math_error = ZeroDivisionError | ValueError_math_domain

text \<open>
  \<open>_wilson_ci(k, n, z)\<close>.  \<open>k / n\<close> divides two integers and gives the quotient rounded to a
  float; an integer that meets a float is converted to a float; \<open>z ** 2\<close> is the square of
  \<open>z\<close> rounded to a float; \<open>math.sqrt\<close> raises \<open>ValueError\<close> for a negative number.
\<close>

definition wilson_ci :: "int \<Rightarrow> int \<Rightarrow> real \<Rightarrow> math_error + real \<times> real" where
  "wilson_ci k n z =
     (if n = 0 then Inr (0, 0)
      else
        let p = float (of_int k / of_int n);
            z2 = f64_mul z z;
            denom = f64_add 1 (f64_div z2 (float (of_int n)))
        in if denom = 0 then Inl ZeroDivisionError
           else
             let centre = f64_div (f64_add p (f64_div z2 (float (of_int (2 * n))))) denom;
                 radicand = f64_add (f64_div (f64_mul p (f64_sub 1 p)) (float (of_int n)))
                                    (f64_div z2 (float (of_int (4 * n ^ 2))))
             in if radicand < 0 then Inl ValueError_math_domain
                else
                  let margin = f64_div (f64_mul z (f64_sqrt radicand)) denom
                  in Inr (f64_mul (max 0 (f64_sub centre margin)) 100,
                          f64_mul (min 100 (f64_add centre margin)) 100))"

text \<open>The default \<open>z = 1.96\<close>: the float nearest to 1.96.\<close>

definition z_95 :: real where
  "z_95 = float (196 / 100)"

section \<open>Properties of the session pairing\<close>

lemma starts_window_key:
  "s \<in> set (starts_window xs) \<Longrightarrow> \<exists>x \<in> set xs. starts_key s = partition_of x \<and> s_session_id s = event_id x"
  by (induction xs) (auto simp: starts_key_def partition_of_def)

lemma concat_single_block:
  "distinct ps \<Longrightarrow> concat (map (\<lambda>q. if q = p then g p else []) ps) = (if p \<in> set ps then g p else [])"
  by (induction ps) auto

lemma window_set: "set (window rows p) = {x \<in> set rows. partition_of x = p}"
  by (auto simp: window_def)

lemma filter_starts_window_key:
  "filter (\<lambda>s. starts_key s = p) (starts_window (window rows q)) = (if q = p then starts_window (window rows q) else [])"
proof -
  have "\<forall>s \<in> set (starts_window (window rows q)). starts_key s = q"
    using starts_window_key[of _ "window rows q"] by (auto simp: window_set)
  then show ?thesis by (auto simp: filter_empty_conv)
qed

lemma starts_partition:
  "filter (\<lambda>s. starts_key s = p) (starts raw_events) =
     starts_window (window (filter (\<lambda>ev. event_type ev = ''session_started'') raw_events) p)"
proof -
  let ?st = "filter (\<lambda>ev. event_type ev = ''session_started'') raw_events"
  have "filter (\<lambda>s. starts_key s = p) (starts raw_events) =
        concat (map (\<lambda>q. if q = p then starts_window (window ?st p) else []) (remdups (map partition_of ?st)))"
    unfolding starts_def Let_def filter_concat map_map comp_def filter_starts_window_key
    by (rule arg_cong[where f=concat], rule map_cong) auto
  also have "\<dots> = (if p \<in> set (remdups (map partition_of ?st)) then starts_window (window ?st p) else [])"
    by (rule concat_single_block) simp
  also have "\<dots> = starts_window (window ?st p)"
  proof (cases "p \<in> set (remdups (map partition_of ?st))")
    case True then show ?thesis by simp
  next
    case False
    then have "filter (\<lambda>ev. partition_of ev = p) ?st = []"
      by (auto simp: filter_empty_conv)
    then show ?thesis using False by (simp add: window_def)
  qed
  finally show ?thesis .
qed

lemma join_rows_fst: "je \<in> set (join_rows es s) \<Longrightarrow> fst je = s"
  by (auto simp: join_rows_def split: list.splits)

lemma join_rows_nonempty: "join_rows es s \<noteq> []"
  by (simp add: join_rows_def split: list.splits)

lemma filter_join_rows:
  "filter (\<lambda>je. R (fst je)) (join_rows es s) = (if R s then join_rows es s else [])"
  using join_rows_fst[of _ es s] by (auto simp: filter_empty_conv)

lemma filter_LEFT_JOIN:
  "filter (\<lambda>je. R (fst je)) (LEFT_JOIN ss es) = LEFT_JOIN (filter R ss) es"
  unfolding LEFT_JOIN_def filter_concat map_map comp_def filter_join_rows
  by (induction ss) auto

lemma MIN_agg_Some:
  "MIN_agg (map Some ts) = (if ts = [] then None else Some (Min (set ts)))"
proof (induction ts)
  case Nil then show ?case by simp
next
  case (Cons t ts)
  then show ?case by (cases "ts = []") (auto simp: min_def)
qed

lemma MIN_agg_join_rows:
  "MIN_agg (map (\<lambda>je. map_option e_ended_at (snd je)) (join_rows es s)) =
     (let ts = map e_ended_at (filter (join_on s) es) in if ts = [] then None else Some (Min (set ts)))"
proof (cases "filter (join_on s) es")
  case Nil
  then show ?thesis by (simp add: join_rows_def)
next
  case (Cons m ms)
  then have "map (\<lambda>je. map_option e_ended_at (snd je)) (join_rows es s) = map Some (map e_ended_at (filter (join_on s) es))"
    by (simp add: join_rows_def)
  then show ?thesis by (simp only: MIN_agg_Some Let_def)
qed

lemma remdups_const: "xs \<noteq> [] \<Longrightarrow> \<forall>x \<in> set xs. x = k \<Longrightarrow> remdups xs = [k]"
proof (induction xs)
  case Nil
  then show ?case by simp
next
  case (Cons x xs)
  have xk: "x = k" using Cons.prems(2) by simp
  show ?case
  proof (cases "xs = []")
    case True
    then show ?thesis using xk by simp
  next
    case False
    then have ih: "remdups xs = [k]" using Cons.IH Cons.prems(2) by simp
    from False obtain y ys where "xs = y # ys" by (cases xs) auto
    then have "k \<in> set xs" using Cons.prems(2) by auto
    then show ?thesis using xk ih by simp
  qed
qed

lemma GROUP_BY_single:
  "GROUP_BY (LEFT_JOIN [s] es) =
     [group_row (group_key s)
        (let ts = map e_ended_at (filter (join_on s) es) in if ts = [] then None else Some (Min (set ts)))]"
proof -
  have J: "LEFT_JOIN [s] es = join_rows es s" by (simp add: LEFT_JOIN_def)
  have k: "remdups (map (\<lambda>je. group_key (fst je)) (join_rows es s)) = [group_key s]"
    by (rule remdups_const) (auto simp: join_rows_nonempty dest: join_rows_fst)
  have f: "filter (\<lambda>je. group_key (fst je) = group_key s) (join_rows es s) = join_rows es s"
    by (auto simp: filter_id_conv dest: join_rows_fst)
  have "GROUP_BY (join_rows es s) =
        [group_row (group_key s) (MIN_agg (map (\<lambda>je. map_option e_ended_at (snd je)) (join_rows es s)))]"
    unfolding GROUP_BY_def k list.map f ..
  then show ?thesis
    unfolding J MIN_agg_join_rows .
qed

lemma filter_GROUP_BY:
  "filter (\<lambda>r. Q (session_id r, user_id r, mentor_id r, started_at r)) (GROUP_BY joined) =
     GROUP_BY (filter (\<lambda>je. Q (group_key (fst je))) joined)"
proof -
  let ?agg = "\<lambda>js k. group_row k (MIN_agg (map (\<lambda>je. map_option e_ended_at (snd je)) (filter (\<lambda>je. group_key (fst je) = k) js)))"
  let ?js' = "filter (\<lambda>je. Q (group_key (fst je))) joined"
  have row: "Q (session_id (group_row k m), user_id (group_row k m), mentor_id (group_row k m), started_at (group_row k m)) = Q k" for k m
    by (cases k) simp
  have "filter (\<lambda>r. Q (session_id r, user_id r, mentor_id r, started_at r)) (GROUP_BY joined)
        = map (?agg joined) (filter Q (remdups (map (\<lambda>je. group_key (fst je)) joined)))"
    unfolding GROUP_BY_def filter_map comp_def row ..
  also have "filter Q (remdups (map (\<lambda>je. group_key (fst je)) joined)) = remdups (map (\<lambda>je. group_key (fst je)) ?js')"
    unfolding remdups_filter[symmetric] filter_map comp_def ..
  also have "map (?agg joined) (remdups (map (\<lambda>je. group_key (fst je)) ?js')) = map (?agg ?js') (remdups (map (\<lambda>je. group_key (fst je)) ?js'))"
  proof (rule map_cong[OF refl])
    fix k assume "k \<in> set (remdups (map (\<lambda>je. group_key (fst je)) ?js'))"
    then have "Q k" by auto
    then have "filter (\<lambda>je. group_key (fst je) = k) ?js' = filter (\<lambda>je. group_key (fst je) = k) joined"
      by (auto simp: filter_filter intro!: filter_cong)
    then show "?agg joined k = ?agg ?js' k" by simp
  qed
  finally show ?thesis unfolding GROUP_BY_def .
qed

lemma starts_window_Cons: "starts_window (ev # rest) = start_row ev (LEAD rest) # starts_window rest"
  by (simp add: start_row_def)

lemma starts_window_no_id:
  "i \<notin> event_id ` set xs \<Longrightarrow> filter (\<lambda>s. s_session_id s = i) (starts_window xs) = []"
  using starts_window_key[of _ xs] by (auto simp: filter_empty_conv)

lemma starts_window_find:
  assumes "event_id S \<notin> event_id ` set pre" and "event_id S \<notin> event_id ` set post"
  shows "filter (\<lambda>s. s_session_id s = event_id S) (starts_window (pre @ S # post)) = [start_row S (LEAD post)]"
  using assms(1)
proof (induction pre)
  case Nil
  show ?case
    using starts_window_no_id[OF assms(2)] by (simp add: start_row_def)
next
  case (Cons a pre)
  then have "event_id a \<noteq> event_id S" by auto
  then show ?case using Cons by simp
qed

lemma starts_in:
  "s \<in> set (starts raw_events) \<Longrightarrow>
     \<exists>x \<in> set raw_events. event_type x = ''session_started'' \<and> starts_key s = partition_of x \<and> s_session_id s = event_id x"
proof -
  assume "s \<in> set (starts raw_events)"
  then have "\<exists>q. s \<in> set (starts_window (window (filter (\<lambda>ev. event_type ev = ''session_started'') raw_events) q))"
    unfolding starts_def Let_def by (auto simp del: split_paired_Ex)
  then obtain q where "s \<in> set (starts_window (window (filter (\<lambda>ev. event_type ev = ''session_started'') raw_events) q))" ..
  from starts_window_key[OF this] show ?thesis by (auto simp: window_set)
qed

lemma distinct_map_sort_key: "distinct (map f xs) \<Longrightarrow> distinct (map f (sort_key g xs))"
  by (simp add: distinct_map)

lemma starts_find:
  assumes d: "distinct (map event_id (filter (\<lambda>ev. event_type ev = ''session_started'') raw_events))"
      and w: "window (filter (\<lambda>ev. event_type ev = ''session_started'') raw_events) (partition_of S) = pre @ S # post"
  shows "filter (\<lambda>s. s_session_id s = event_id S) (starts raw_events) = [start_row S (LEAD post)]"
proof -
  let ?st = "filter (\<lambda>ev. event_type ev = ''session_started'') raw_events"
  let ?p = "partition_of S"
  have Sin: "S \<in> set ?st"
  proof -
    have "S \<in> set (window ?st ?p)" unfolding w by simp
    then show ?thesis unfolding window_set by simp
  qed
  have inj: "inj_on event_id (set ?st)" using d by (simp add: distinct_map)
  have key: "starts_key s = ?p" if "s \<in> set (starts raw_events)" "s_session_id s = event_id S" for s
  proof -
    from starts_in[OF that(1)] obtain x where x: "x \<in> set ?st" "starts_key s = partition_of x" "s_session_id s = event_id x"
      by auto
    with that(2) have "event_id x = event_id S" by simp
    with inj x(1) Sin have "x = S" by (auto dest: inj_onD)
    with x(2) show ?thesis by simp
  qed
  have "filter (\<lambda>s. s_session_id s = event_id S) (starts raw_events)
        = filter (\<lambda>s. s_session_id s = event_id S) (filter (\<lambda>s. starts_key s = ?p) (starts raw_events))"
    unfolding filter_filter by (rule filter_cong) (auto dest: key)
  also have "\<dots> = filter (\<lambda>s. s_session_id s = event_id S) (starts_window (pre @ S # post))"
    unfolding starts_partition w ..
  also have "\<dots> = [start_row S (LEAD post)]"
  proof (rule starts_window_find)
    have "distinct (map event_id (filter (\<lambda>ev. partition_of ev = ?p) ?st))"
      using d by (rule distinct_map_filter)
    then have "distinct (map event_id (window ?st ?p))"
      unfolding window_def by (rule distinct_map_sort_key)
    then have dd: "distinct (map event_id (pre @ S # post))" unfolding w .
    from dd show "event_id S \<notin> event_id ` set pre" by auto
    from dd show "event_id S \<notin> event_id ` set post" by auto
  qed
  finally show ?thesis .
qed

lemma paired_filter_session:
  "filter (\<lambda>r. session_id r = i) (paired raw_events)
     = GROUP_BY (LEFT_JOIN (filter (\<lambda>s. s_session_id s = i) (starts raw_events)) (ends raw_events))"
proof -
  have "filter (\<lambda>r. (\<lambda>k. fst k = i) (session_id r, user_id r, mentor_id r, started_at r)) (paired raw_events)
        = GROUP_BY (filter (\<lambda>je. (\<lambda>k. fst k = i) (group_key (fst je))) (LEFT_JOIN (starts raw_events) (ends raw_events)))"
    unfolding paired_def by (rule filter_GROUP_BY)
  moreover have "filter (\<lambda>je. (\<lambda>s. s_session_id s = i) (fst je)) (LEFT_JOIN (starts raw_events) (ends raw_events))
        = LEFT_JOIN (filter (\<lambda>s. s_session_id s = i) (starts raw_events)) (ends raw_events)"
    by (rule filter_LEFT_JOIN)
  ultimately show ?thesis by (simp add: group_key_def)
qed

lemma join_candidates:
  "map e_ended_at (filter (join_on (start_row S (LEAD post))) (ends raw_events)) = candidate_ends raw_events S post"
proof -
  have on: "join_on (start_row S (LEAD post)) \<lparr>e_user_id = user_id E, e_mentor_id = TRIM (mentor_id E), e_ended_at = timestamp E\<rparr>
        = (partition_of E = partition_of S \<and> timestamp S < timestamp E
            \<and> (case post of [] \<Rightarrow> True | next_start # _ \<Rightarrow> timestamp E < timestamp next_start))" for E
    by (cases post) (auto simp: join_on_def start_row_def partition_of_def)
  show ?thesis
    unfolding ends_def candidate_ends_def filter_map map_map comp_def on filter_filter
    by (simp add: conj_commute conj_left_commute cong: conj_cong)
qed

lemma paired_session_row:
  assumes d: "distinct (map event_id (filter (\<lambda>ev. event_type ev = ''session_started'') raw_events))"
      and w: "window (filter (\<lambda>ev. event_type ev = ''session_started'') raw_events) (partition_of S) = pre @ S # post"
  shows "filter (\<lambda>r. session_id r = event_id S) (paired raw_events) =
           [\<lparr>user_id = user_id S, mentor_id = TRIM (mentor_id S), session_id = event_id S,
             started_at = timestamp S,
             ended_at = (if candidate_ends raw_events S post = [] then None
                         else Some (Min (set (candidate_ends raw_events S post))))\<rparr>]"
  unfolding paired_filter_session starts_find[OF d w] GROUP_BY_single join_candidates Let_def
  by (simp add: group_key_def start_row_def)

lemma filter_fct_sessions:
  "filter (\<lambda>r. P (session_id r, user_id r, mentor_id r)) (fct_sessions d raw_events) =
     map (\<lambda>r. \<lparr>user_id = user_id r, mentor_id = mentor_id r, session_id = session_id r,
                started_at = started_at r, ended_at = ended_at r,
                duration_minutes = COALESCE (map_option (DATEDIFF_minute (started_at r)) (ended_at r)) d,
                is_duration_estimated = (ended_at r = None)\<rparr>)
       (filter (\<lambda>r. P (session_id r, user_id r, mentor_id r)) (paired raw_events))"
  unfolding fct_sessions_def filter_map comp_def by simp

subsection \<open>The end attributed to a start\<close>

text \<open>
  Claim C1.  Let the \<open>session_started\<close> events carry distinct identifiers (the data model
  deduplicates events before pairing), and let \<open>S\<close> be a start whose partition, ordered by
  timestamp, reads \<open>pre @ S # post\<close>: \<open>post\<close> holds the later starts of the partition, its
  head being the next start.  Then the pairing yields exactly one row for \<open>S\<close>, and its
  \<open>ended_at\<close> is the earliest timestamp among the candidate ends of \<open>S\<close>: the
  \<open>session_ended\<close> events of the same (user, mentor) partition that lie strictly after
  \<open>S\<close> and, when there is a next start, strictly before it; it is NULL when there is no
  candidate.  In particular an end that lies after the next start is no candidate of \<open>S\<close>:
  in \<open>lead_boundary_events\<close> the first start gets no end and the end goes to the second
  start, which is what the witness evaluates.
\<close>

theorem pairing_attributes_earliest_candidate_end:
  assumes "distinct (map event_id (filter (\<lambda>ev. event_type ev = ''session_started'') raw_events))"
      and "window (filter (\<lambda>ev. event_type ev = ''session_started'') raw_events) (partition_of S) = pre @ S # post"
  shows "filter (\<lambda>r. session_id r = event_id S) (run_pairing raw_events) =
           [\<lparr>user_id = user_id S, mentor_id = TRIM (mentor_id S), session_id = event_id S,
             started_at = timestamp S,
             ended_at = (if candidate_ends raw_events S post = [] then None
                         else Some (Min (set (candidate_ends raw_events S post))))\<rparr>]"
  unfolding run_pairing_def filter_sort paired_session_row[OF assms] by simp

theorem pairing_attributes_earliest_candidate_end_witness:
  "distinct (map event_id (filter (\<lambda>ev. event_type ev = ''session_started'') lead_boundary_events))
   \<and> window (filter (\<lambda>ev. event_type ev = ''session_started'') lead_boundary_events)
        (partition_of (event ''e1'' 1 ''M01'' 1735725600000000 ''session_started''))
      = [] @ event ''e1'' 1 ''M01'' 1735725600000000 ''session_started''
           # [event ''e3'' 1 ''M01'' 1735729200000000 ''session_started'']
   \<and> window (filter (\<lambda>ev. event_type ev = ''session_started'') lead_boundary_events)
        (partition_of (event ''e3'' 1 ''M01'' 1735729200000000 ''session_started''))
      = [event ''e1'' 1 ''M01'' 1735725600000000 ''session_started'']
          @ event ''e3'' 1 ''M01'' 1735729200000000 ''session_started'' # []
   \<and> filter (\<lambda>r. session_id r = ''e1'') (run_pairing lead_boundary_events) =
        [\<lparr>user_id = 1, mentor_id = ''M01'', session_id = ''e1'', started_at = 1735725600000000,
          ended_at = None\<rparr>]
   \<and> filter (\<lambda>r. session_id r = ''e3'') (run_pairing lead_boundary_events) =
        [\<lparr>user_id = 1, mentor_id = ''M01'', session_id = ''e3'', started_at = 1735729200000000,
          ended_at = Some 1735731000000000\<rparr>]"
proof -
  let ?e1 = "event ''e1'' 1 ''M01'' 1735725600000000 ''session_started''"
  let ?e3 = "event ''e3'' 1 ''M01'' 1735729200000000 ''session_started''"
  have d: "distinct (map event_id (filter (\<lambda>ev. event_type ev = ''session_started'') lead_boundary_events))"
    by (simp add: lead_boundary_events_def event_def)
  have w1: "window (filter (\<lambda>ev. event_type ev = ''session_started'') lead_boundary_events) (partition_of ?e1)
            = [] @ ?e1 # [?e3]"
    by (simp add: lead_boundary_events_def event_def window_def partition_of_def TRIM_def)
  have w3: "window (filter (\<lambda>ev. event_type ev = ''session_started'') lead_boundary_events) (partition_of ?e3)
            = [?e1] @ ?e3 # []"
    by (simp add: lead_boundary_events_def event_def window_def partition_of_def TRIM_def)
  have ce1: "candidate_ends lead_boundary_events ?e1 [?e3] = []"
    by (simp add: candidate_ends_def lead_boundary_events_def event_def partition_of_def TRIM_def)
  have c3: "candidate_ends lead_boundary_events ?e3 [] = [1735731000000000]"
    by (simp add: candidate_ends_def lead_boundary_events_def event_def partition_of_def TRIM_def)
  have r1: "filter (\<lambda>r. session_id r = ''e1'') (run_pairing lead_boundary_events) =
        [\<lparr>user_id = 1, mentor_id = ''M01'', session_id = ''e1'', started_at = 1735725600000000,
          ended_at = None\<rparr>]"
    using pairing_attributes_earliest_candidate_end[OF d w1] unfolding ce1 by (simp add: event_def TRIM_def)
  have r3: "filter (\<lambda>r. session_id r = ''e3'') (run_pairing lead_boundary_events) =
        [\<lparr>user_id = 1, mentor_id = ''M01'', session_id = ''e3'', started_at = 1735729200000000,
          ended_at = Some 1735731000000000\<rparr>]"
    using pairing_attributes_earliest_candidate_end[OF d w3] unfolding c3 by (simp add: event_def TRIM_def)
  show ?thesis using d w1 w3 r1 r3 by blast
qed

subsection \<open>Duration and the estimate flag\<close>

lemma div_diff_split:
  fixes a b m :: nat
  assumes "0 < m"
  shows "int (b div m) - int (a div m) =
           (int b - int a) div int m + (if b mod m < a mod m then 1 else 0)"
proof -
  have eb: "int b = int m * int (b div m) + int (b mod m)"
    by (metis of_nat_add of_nat_mult mult_div_mod_eq)
  have ea: "int a = int m * int (a div m) + int (a mod m)"
    by (metis of_nat_add of_nat_mult mult_div_mod_eq)
  have la: "a mod m < m" and lb: "b mod m < m" using assms by simp_all
  show ?thesis
  proof (cases "b mod m < a mod m")
    case True
    have "int b - int a =
            int m * (int (b div m) - int (a div m) - 1) + (int m + int (b mod m) - int (a mod m))"
      using eb ea by (simp add: algebra_simps)
    moreover have "0 \<le> int m + int (b mod m) - int (a mod m)" using la by linarith
    moreover have "int m + int (b mod m) - int (a mod m) < int m" using True by linarith
    ultimately have "(int b - int a) div int m = int (b div m) - int (a div m) - 1"
      by (rule int_div_pos_eq)
    with True show ?thesis by simp
  next
    case False
    have "int b - int a =
            int m * (int (b div m) - int (a div m)) + (int (b mod m) - int (a mod m))"
      using eb ea by (simp add: algebra_simps)
    moreover have "0 \<le> int (b mod m) - int (a mod m)" using False by linarith
    moreover have "int (b mod m) - int (a mod m) < int m" using lb by linarith
    ultimately have "(int b - int a) div int m = int (b div m) - int (a div m)"
      by (rule int_div_pos_eq)
    with False show ?thesis by simp
  qed
qed

lemma DATEDIFF_minute_elapsed:
  "DATEDIFF_minute a b =
     elapsed_whole_minutes a b + (if b mod 60000000 < a mod 60000000 then 1 else 0)"
  unfolding DATEDIFF_minute_def elapsed_whole_minutes_def
  using div_diff_split[of 60000000 b a] by simp

text \<open>
  Claim C2.  Under the conditions of C1, the row of \<open>fct_sessions\<close> for the start \<open>S\<close>
  is determined by the candidate ends of \<open>S\<close>.  When there is none (no qualifying end
  before the next start of the partition, or before the end of the data), \<open>ended_at\<close> is
  NULL, \<open>is_duration_estimated\<close> is true and \<open>duration_minutes\<close> is the default session
  duration.  When there is one, \<open>ended_at\<close> is the earliest candidate,
  \<open>is_duration_estimated\<close> is false and \<open>duration_minutes\<close> is
  \<open>DATEDIFF('minute', started_at, ended_at)\<close>, the number of minute boundaries between
  the two instants: the elapsed time \<open>end - start\<close> in whole minutes, plus one when the end
  lies earlier within its minute than the start within its own.
\<close>

theorem session_row_duration_and_estimate_flag:
  assumes "distinct (map event_id (filter (\<lambda>ev. event_type ev = ''session_started'') raw_events))"
      and "window (filter (\<lambda>ev. event_type ev = ''session_started'') raw_events) (partition_of S) = pre @ S # post"
  shows "filter (\<lambda>r. session_id r = event_id S) (fct_sessions default_duration_minutes raw_events) =
           [\<lparr>user_id = user_id S, mentor_id = TRIM (mentor_id S), session_id = event_id S,
             started_at = timestamp S,
             ended_at = (if candidate_ends raw_events S post = [] then None
                         else Some (Min (set (candidate_ends raw_events S post)))),
             duration_minutes =
               (if candidate_ends raw_events S post = [] then default_duration_minutes
                else DATEDIFF_minute (timestamp S) (Min (set (candidate_ends raw_events S post)))),
             is_duration_estimated = (candidate_ends raw_events S post = [])\<rparr>]
         \<and> DATEDIFF_minute (timestamp S) end_at =
             elapsed_whole_minutes (timestamp S) end_at
             + (if end_at mod 60000000 < timestamp S mod 60000000 then 1 else 0)"
proof -
  have "filter (\<lambda>r. (\<lambda>k. fst k = event_id S) (session_id r, user_id r, mentor_id r)) (fct_sessions default_duration_minutes raw_events) =
     map (\<lambda>r. \<lparr>user_id = user_id r, mentor_id = mentor_id r, session_id = session_id r,
                started_at = started_at r, ended_at = ended_at r,
                duration_minutes = COALESCE (map_option (DATEDIFF_minute (started_at r)) (ended_at r)) default_duration_minutes,
                is_duration_estimated = (ended_at r = None)\<rparr>)
       (filter (\<lambda>r. (\<lambda>k. fst k = event_id S) (session_id r, user_id r, mentor_id r)) (paired raw_events))"
    by (rule filter_fct_sessions)
  then have "filter (\<lambda>r. session_id r = event_id S) (fct_sessions default_duration_minutes raw_events) =
           [\<lparr>user_id = user_id S, mentor_id = TRIM (mentor_id S), session_id = event_id S,
             started_at = timestamp S,
             ended_at = (if candidate_ends raw_events S post = [] then None
                         else Some (Min (set (candidate_ends raw_events S post)))),
             duration_minutes =
               (if candidate_ends raw_events S post = [] then default_duration_minutes
                else DATEDIFF_minute (timestamp S) (Min (set (candidate_ends raw_events S post)))),
             is_duration_estimated = (candidate_ends raw_events S post = [])\<rparr>]"
    unfolding fst_conv paired_session_row[OF assms] by simp
  then show ?thesis
    using DATEDIFF_minute_elapsed[of "timestamp S" end_at] by (rule conjI)
qed

theorem session_row_duration_and_estimate_flag_witness:
  "distinct (map event_id (filter (\<lambda>ev. event_type ev = ''session_started'') missing_end_events))
   \<and> window (filter (\<lambda>ev. event_type ev = ''session_started'') missing_end_events)
        (partition_of (event ''e1'' 1 ''M01'' 1735725600000000 ''session_started''))
      = [] @ event ''e1'' 1 ''M01'' 1735725600000000 ''session_started'' # []
   \<and> filter (\<lambda>r. session_id r = ''e1'') (fct_sessions 30 missing_end_events) =
        [\<lparr>user_id = 1, mentor_id = ''M01'', session_id = ''e1'', started_at = 1735725600000000,
          ended_at = None, duration_minutes = 30, is_duration_estimated = True\<rparr>]
   \<and> distinct (map event_id (filter (\<lambda>ev. event_type ev = ''session_started'') minute_boundary_events))
   \<and> window (filter (\<lambda>ev. event_type ev = ''session_started'') minute_boundary_events)
        (partition_of (event ''e1'' 1 ''M01'' 1735725659000000 ''session_started''))
      = [] @ event ''e1'' 1 ''M01'' 1735725659000000 ''session_started'' # []
   \<and> filter (\<lambda>r. session_id r = ''e1'') (fct_sessions 30 minute_boundary_events) =
        [\<lparr>user_id = 1, mentor_id = ''M01'', session_id = ''e1'', started_at = 1735725659000000,
          ended_at = Some 1735725661000000, duration_minutes = 1, is_duration_estimated = False\<rparr>]
   \<and> DATEDIFF_minute 1735725659000000 1735725661000000 =
        elapsed_whole_minutes 1735725659000000 1735725661000000 + 1"
proof -
  let ?e1 = "event ''e1'' 1 ''M01'' 1735725600000000 ''session_started''"
  let ?b1 = "event ''e1'' 1 ''M01'' 1735725659000000 ''session_started''"
  have d: "distinct (map event_id (filter (\<lambda>ev. event_type ev = ''session_started'') missing_end_events))"
    by (simp add: missing_end_events_def event_def)
  have w: "window (filter (\<lambda>ev. event_type ev = ''session_started'') missing_end_events) (partition_of ?e1)
            = [] @ ?e1 # []"
    by (simp add: missing_end_events_def event_def window_def partition_of_def TRIM_def)
  have ce: "candidate_ends missing_end_events ?e1 [] = []"
    by (simp add: candidate_ends_def missing_end_events_def event_def partition_of_def TRIM_def)
  have r: "filter (\<lambda>r. session_id r = ''e1'') (fct_sessions 30 missing_end_events) =
        [\<lparr>user_id = 1, mentor_id = ''M01'', session_id = ''e1'', started_at = 1735725600000000,
          ended_at = None, duration_minutes = 30, is_duration_estimated = True\<rparr>]"
    using session_row_duration_and_estimate_flag[OF d w, of 30] unfolding ce by (simp add: event_def TRIM_def)
  have d': "distinct (map event_id (filter (\<lambda>ev. event_type ev = ''session_started'') minute_boundary_events))"
    by (simp add: minute_boundary_events_def event_def)
  have w': "window (filter (\<lambda>ev. event_type ev = ''session_started'') minute_boundary_events) (partition_of ?b1)
            = [] @ ?b1 # []"
    by (simp add: minute_boundary_events_def event_def window_def partition_of_def TRIM_def)
  have ce': "candidate_ends minute_boundary_events ?b1 [] = [1735725661000000]"
    by (simp add: candidate_ends_def minute_boundary_events_def event_def partition_of_def TRIM_def)
  have t': "timestamp ?b1 = 1735725659000000"
    by (simp add: event_def)
  have r': "filter (\<lambda>r. session_id r = ''e1'') (fct_sessions 30 minute_boundary_events) =
        [\<lparr>user_id = 1, mentor_id = ''M01'', session_id = ''e1'', started_at = 1735725659000000,
          ended_at = Some 1735725661000000, duration_minutes = 1, is_duration_estimated = False\<rparr>]"
    using session_row_duration_and_estimate_flag[OF d' w', of 30] unfolding ce' by (simp add: event_def TRIM_def DATEDIFF_minute_def)
  have e': "DATEDIFF_minute 1735725659000000 1735725661000000 =
        elapsed_whole_minutes 1735725659000000 1735725661000000 + 1"
    using session_row_duration_and_estimate_flag[OF d' w', of 30 1735725661000000] unfolding t' by simp
  show ?thesis using d w r d' w' r' e' by blast
qed

text \<open>
  Claim C2, as the specification words it, does not hold: the duration of a session with an
  end is not always \<open>end - start\<close> in whole minutes.  The session of
  \<open>minute_boundary_events\<close> lasts two seconds, which is zero whole minutes, and its row
  carries the duration 1.
\<close>

theorem duration_of_two_seconds_across_minute_boundary:
  "fct_sessions 30 minute_boundary_events =
     [\<lparr>user_id = 1, mentor_id = ''M01'', session_id = ''e1'', started_at = 1735725659000000,
       ended_at = Some 1735725661000000, duration_minutes = 1, is_duration_estimated = False\<rparr>]
   \<and> elapsed_whole_minutes 1735725659000000 1735725661000000 = 0"
  by (simp add: fct_sessions_def paired_def GROUP_BY_def group_key_def LEFT_JOIN_def join_rows_def
        join_on_def starts_def ends_def window_def partition_of_def TRIM_def
        minute_boundary_events_def event_def DATEDIFF_minute_def elapsed_whole_minutes_def Let_def)

subsection \<open>Partitions do not influence each other\<close>

lemma join_rows_partition:
  "starts_key s = p \<Longrightarrow> join_rows (filter (\<lambda>e. ends_key e = p) es) s = join_rows es s"
proof -
  assume k: "starts_key s = p"
  have "filter (join_on s) (filter (\<lambda>e. ends_key e = p) es) = filter (join_on s) es"
    unfolding filter_filter
    by (rule filter_cong) (use k in \<open>auto simp: join_on_def starts_key_def ends_key_def\<close>)
  then show ?thesis by (simp add: join_rows_def)
qed

lemma LEFT_JOIN_partition:
  "\<forall>s \<in> set ss. starts_key s = p \<Longrightarrow> LEFT_JOIN ss (filter (\<lambda>e. ends_key e = p) es) = LEFT_JOIN ss es"
  unfolding LEFT_JOIN_def
  by (rule arg_cong[where f = concat], rule map_cong) (auto simp: join_rows_partition)

lemma ends_partition:
  "filter (\<lambda>e. ends_key e = p) (ends raw_events) = ends (filter (\<lambda>ev. partition_of ev = p) raw_events)"
  unfolding ends_def filter_map comp_def filter_filter
  by (simp add: ends_key_def partition_of_def conj_commute)

lemma window_partition:
  "window (filter Q rows) p = window (filter Q (filter (\<lambda>ev. partition_of ev = p) rows)) p"
  unfolding window_def filter_filter
  by (rule arg_cong[where f = "sort_key timestamp"], rule filter_cong) auto

lemma starts_window_all_key:
  "\<forall>s \<in> set (starts_window (window rows p)). starts_key s = p"
  using starts_window_key[of _ "window rows p"] by (auto simp: window_set)

lemma paired_partition:
  "filter (\<lambda>r. (user_id r, mentor_id r) = p) (paired raw_events) =
     GROUP_BY (LEFT_JOIN
       (starts_window (window (filter (\<lambda>ev. event_type ev = ''session_started'')
          (filter (\<lambda>ev. partition_of ev = p) raw_events)) p))
       (ends (filter (\<lambda>ev. partition_of ev = p) raw_events)))"
proof -
  let ?st = "filter (\<lambda>ev. event_type ev = ''session_started'') raw_events"
  have "filter (\<lambda>r. (\<lambda>k. (fst (snd k), fst (snd (snd k))) = p) (session_id r, user_id r, mentor_id r, started_at r)) (paired raw_events)
        = GROUP_BY (filter (\<lambda>je. (\<lambda>k. (fst (snd k), fst (snd (snd k))) = p) (group_key (fst je))) (LEFT_JOIN (starts raw_events) (ends raw_events)))"
    unfolding paired_def by (rule filter_GROUP_BY)
  then have "filter (\<lambda>r. (user_id r, mentor_id r) = p) (paired raw_events)
        = GROUP_BY (filter (\<lambda>je. (\<lambda>s. starts_key s = p) (fst je)) (LEFT_JOIN (starts raw_events) (ends raw_events)))"
    by (simp add: group_key_def starts_key_def)
  also have "\<dots> = GROUP_BY (LEFT_JOIN (starts_window (window ?st p)) (ends raw_events))"
    using filter_LEFT_JOIN[of "\<lambda>s. starts_key s = p" "starts raw_events" "ends raw_events"]
    by (simp add: starts_partition)
  also have "\<dots> = GROUP_BY (LEFT_JOIN (starts_window (window ?st p)) (filter (\<lambda>e. ends_key e = p) (ends raw_events)))"
    using LEFT_JOIN_partition[OF starts_window_all_key, of ?st p "ends raw_events"] by simp
  also have "\<dots> = GROUP_BY (LEFT_JOIN (starts_window (window ?st p)) (ends (filter (\<lambda>ev. partition_of ev = p) raw_events)))"
    unfolding ends_partition ..
  also have "window ?st p = window (filter (\<lambda>ev. event_type ev = ''session_started'') (filter (\<lambda>ev. partition_of ev = p) raw_events)) p"
    by (rule window_partition)
  finally show ?thesis .
qed

text \<open>
  Claim C7.  If two tables of events hold the same events of the (user, mentor) pair \<open>p\<close>,
  in the same order, then the session rows of \<open>p\<close> are the same for both: the events of the
  other pairs can be added, removed or changed freely.
\<close>

theorem pairing_depends_on_partition_only:
  assumes "filter (\<lambda>ev. partition_of ev = p) events1 = filter (\<lambda>ev. partition_of ev = p) events2"
  shows "filter (\<lambda>r. (user_id r, mentor_id r) = p) (fct_sessions d events1) =
         filter (\<lambda>r. (user_id r, mentor_id r) = p) (fct_sessions d events2)"
proof -
  have f: "filter (\<lambda>r. (user_id r, mentor_id r) = p) (fct_sessions d evs) =
     map (\<lambda>r. \<lparr>user_id = user_id r, mentor_id = mentor_id r, session_id = session_id r,
                started_at = started_at r, ended_at = ended_at r,
                duration_minutes = COALESCE (map_option (DATEDIFF_minute (started_at r)) (ended_at r)) d,
                is_duration_estimated = (ended_at r = None)\<rparr>)
       (filter (\<lambda>r. (user_id r, mentor_id r) = p) (paired evs))" for evs
    using filter_fct_sessions[of "\<lambda>k. snd k = p" d evs] by simp
  show ?thesis unfolding f paired_partition assms ..
qed

theorem pairing_depends_on_partition_only_witness:
  "filter (\<lambda>ev. partition_of ev = (1, ''M01'')) lead_boundary_events =
     filter (\<lambda>ev. partition_of ev = (1, ''M01'')) interleaved_events
   \<and> filter (\<lambda>r. (user_id r, mentor_id r) = (1, ''M01'')) (fct_sessions 30 lead_boundary_events) =
       filter (\<lambda>r. (user_id r, mentor_id r) = (1, ''M01'')) (fct_sessions 30 interleaved_events)"
proof -
  have h: "filter (\<lambda>ev. partition_of ev = (1, ''M01'')) lead_boundary_events =
           filter (\<lambda>ev. partition_of ev = (1, ''M01'')) interleaved_events"
    by (simp add: lead_boundary_events_def interleaved_events_def event_def partition_of_def TRIM_def)
  from pairing_depends_on_partition_only[OF h, of 30] h show ?thesis by blast
qed

section \<open>Properties of the configuration check\<close>

lemma validate_Inl_iff:
  "(\<exists>err. validate cfg = Inl err) \<longleftrightarrow>
     (tiers_group_a cfg = [] \<or> tiers_group_b cfg = []
      \<or> set (tiers_group_a cfg) \<inter> set (tiers_group_b cfg) \<noteq> {}
      \<or> default_session_duration_minutes cfg \<le> 0
      \<or> (\<exists>days. rebooking_window_days cfg = Some days \<and> days \<le> 0))"
  by (auto simp: validate_def Let_def split: option.splits)

lemma main_validate_fails:
  "validate (case config of None \<Rightarrow> from_yaml env | Some c \<Rightarrow> c) = Inl err \<Longrightarrow>
     main env config mode = (Inl (Value_Error err), [])"
  by (simp add: main_def Let_def)

text \<open>
  Claim C6.  \<open>PipelineConfig.validate\<close> raises a \<open>ValueError\<close> if and only if a tier group
  is empty, the two groups share a tier, the default session duration is not strictly
  positive, or a rebooking window is set and is not strictly positive (no window, \<open>None\<close>,
  is valid).  \<open>main\<close> validates the configuration, the one it is given or the one it loads,
  before anything else: when the validation raises, \<open>main\<close> raises that error and no phase
  has started; and whenever a phase has started, the validation had passed.
\<close>

theorem validate_raises_iff_and_precedes_phases:
  "((\<exists>err. validate cfg = Inl err) \<longleftrightarrow>
     (tiers_group_a cfg = [] \<or> tiers_group_b cfg = []
      \<or> set (tiers_group_a cfg) \<inter> set (tiers_group_b cfg) \<noteq> {}
      \<or> default_session_duration_minutes cfg \<le> 0
      \<or> (\<exists>days. rebooking_window_days cfg = Some days \<and> days \<le> 0)))
   \<and> (\<forall>err. validate cfg = Inl err \<longrightarrow> main env (Some cfg) mode = (Inl (Value_Error err), []))
   \<and> (\<forall>err. validate (from_yaml env) = Inl err \<longrightarrow> main env None mode = (Inl (Value_Error err), []))
   \<and> (\<forall>ph. ph \<in> set (snd (main env (Some cfg) mode)) \<longrightarrow> validate cfg = Inr ())"
proof -
  have 4: "validate cfg = Inr ()" if "ph \<in> set (snd (main env (Some cfg) mode))" for ph
  proof (cases "validate cfg")
    case (Inl err)
    then have "main env (Some cfg) mode = (Inl (Value_Error err), [])"
      by (simp add: main_validate_fails)
    with that show ?thesis by simp
  next
    case (Inr u)
    then show ?thesis by simp
  qed
  show ?thesis
    using validate_Inl_iff[of cfg] main_validate_fails[where config="Some cfg" and env=env and mode=mode] main_validate_fails[where config=None and env=env and mode=mode] 4
    by auto
qed

theorem validate_raises_iff_and_precedes_phases_witness:
  "validate overlapping_config = Inl (Tier_groups_overlap {''Gold''})
   \<and> main all_phases_complete (Some overlapping_config) ''full'' = (Inl (Value_Error (Tier_groups_overlap {''Gold''})), [])
   \<and> validate default_config = Inr ()
   \<and> main all_phases_complete (Some default_config) ''full'' = (Inr (), [Ingest, Transform, Validate, Analyse])"
proof -
  have v: "validate overlapping_config = Inl (Tier_groups_overlap {''Gold''})"
    by (simp add: validate_def overlapping_config_def default_config_def Let_def)
  have m: "main all_phases_complete (Some overlapping_config) ''full'' = (Inl (Value_Error (Tier_groups_overlap {''Gold''})), [])"
    using validate_raises_iff_and_precedes_phases[of overlapping_config all_phases_complete "''full''"] v by blast
  have r: "main all_phases_complete (Some default_config) ''full'' = (Inr (), [Ingest, Transform, Validate, Analyse])"
    by (simp add: main_def validate_def default_config_def all_phases_complete_def run_phase_def Let_def)
  have "Ingest \<in> set (snd (main all_phases_complete (Some default_config) ''full''))"
    unfolding r by simp
  then have d: "validate default_config = Inr ()"
    using validate_raises_iff_and_precedes_phases[of default_config all_phases_complete "''full''"] by blast
  show ?thesis using v m d r by blast
qed

section \<open>Properties of the data-quality checks\<close>

subsection \<open>Raising and returning\<close>

lemma check1_Inl_iff: "(\<exists>e. check1 con = Inl e) \<longleftrightarrow> no_count (check1_negative_durations con)"
  by (cases "check1_negative_durations con" rule: no_count.cases)
     (auto simp: check1_def execute_def safe_fetchone_def split: option.splits)

lemma check4_Inl_iff: "(\<exists>e. check4 con m = Inl e) \<longleftrightarrow> no_count (check4_duration_outliers con m)"
  by (cases "check4_duration_outliers con m" rule: no_count.cases)
     (auto simp: check4_def execute_def safe_fetchone_def split: option.splits)

lemma table_exists_Inl_iff: "(\<exists>e. table_exists con name = Inl e) \<longleftrightarrow> no_result (information_schema_tables con name)"
  by (cases "information_schema_tables con name" rule: no_result.cases)
     (auto simp: table_exists_def)

lemma table_exists_Inr_iff: "table_exists con name = Inr b \<Longrightarrow> b = reports_table (information_schema_tables con name)"
  by (cases "information_schema_tables con name" rule: reports_table.cases)
     (auto simp: table_exists_def split: option.splits fetch.splits)

lemma check5_Inl_iff:
  "(\<exists>e. check5 con config = Inl e) \<longleftrightarrow>
     (no_result (information_schema_tables con ''fct_bookings'')
      \<or> (reports_table (information_schema_tables con ''fct_bookings'')
          \<and> (no_orphan_counts (check5_orphan_rate con) \<or> empty_fct_bookings (check5_orphan_rate con))))"
proof (cases "table_exists con ''fct_bookings''")
  case (Inl e)
  then have "no_result (information_schema_tables con ''fct_bookings'')"
    using table_exists_Inl_iff[of con "''fct_bookings''"] by auto
  with Inl show ?thesis by (simp add: check5_def)
next
  case (Inr b)
  then have nr: "\<not> no_result (information_schema_tables con ''fct_bookings'')"
    using table_exists_Inl_iff[of con "''fct_bookings''"] by auto
  have b: "b = reports_table (information_schema_tables con ''fct_bookings'')"
    using Inr by (rule table_exists_Inr_iff)
  show ?thesis
  proof (cases b)
    case False
    with Inr nr b show ?thesis by (simp add: check5_def)
  next
    case True
    have "(\<exists>e. check5 con config = Inl e) \<longleftrightarrow>
            (no_orphan_counts (check5_orphan_rate con) \<or> empty_fct_bookings (check5_orphan_rate con))"
      using Inr True
      by (cases "check5_orphan_rate con" rule: no_orphan_counts.cases)
         (auto simp: check5_def execute_def safe_fetchone_def Let_def split: option.splits)
    with nr b True show ?thesis by simp
  qed
qed

lemma check6_Inl_iff:
  "(\<exists>e. check6 con config = Inl e) \<longleftrightarrow>
     (case config of None \<Rightarrow> False
      | Some c \<Rightarrow> tiers_group_a c @ tiers_group_b c \<noteq> []
          \<and> (no_result (check6_existing_tiers con (placeholders (tiers_group_a c @ tiers_group_b c)))
             \<or> no_result (check6_available_tiers con)))"
proof (cases config)
  case None
  then show ?thesis by (simp add: check6_def)
next
  case (Some c)
  show ?thesis
  proof (cases "tiers_group_a c @ tiers_group_b c = []")
    case True
    with Some show ?thesis by (simp add: check6_def)
  next
    case False
    with Some show ?thesis
      by (cases "check6_existing_tiers con (placeholders (tiers_group_a c @ tiers_group_b c))" rule: no_result.cases;
          cases "check6_available_tiers con" rule: no_result.cases)
         (simp_all add: check6_def execute_def safe_fetchall_def Let_def)
  qed
qed

lemma run_checks_try_Inl_iff:
  "(\<exists>e. run_checks_try con config = Inl e) \<longleftrightarrow>
     (infrastructure_failure con config
      \<or> (reports_table (information_schema_tables con ''fct_bookings'')
          \<and> empty_fct_bookings (check5_orphan_rate con)))"
proof -
  let ?m = "case config of Some c \<Rightarrow> dq_max_duration_minutes c | None \<Rightarrow> MAX_DURATION_MINS"
  have "(\<exists>e. run_checks_try con config = Inl e) \<longleftrightarrow>
        ((\<exists>e. check1 con = Inl e) \<or> (\<exists>e. check4 con ?m = Inl e) \<or> (\<exists>e. check5 con config = Inl e) \<or> (\<exists>e. check6 con config = Inl e))"
    by (auto simp: run_checks_try_def Let_def split: sum.splits)
  then show ?thesis
    unfolding check1_Inl_iff check4_Inl_iff check5_Inl_iff check6_Inl_iff infrastructure_failure_def MAX_DURATION_MINS_def
    by blast
qed

lemma run_checks_Inl: "run_checks con config = Inl e \<Longrightarrow> \<exists>msg. e = DataQualityError msg"
  by (auto simp: run_checks_def split: sum.splits exception.splits)

lemma run_checks_Inl_iff:
  "(\<exists>e. run_checks con config = Inl e) \<longleftrightarrow> (\<exists>e. run_checks_try con config = Inl e)"
  by (auto simp: run_checks_def split: sum.splits exception.splits)

text \<open>
  \<open>run_checks\<close> either returns the pair of lists (failures, warnings) or raises
  \<open>DataQualityError\<close>, and nothing else.  It raises exactly when the run meets an
  infrastructure failure or the table \<open>fct_bookings\<close> exists and is empty.  What the counts
  and the tiers are otherwise (negative durations, outliers, the orphan rate, missing tiers)
  decides only the entries of the two lists.
\<close>

lemma run_checks_raises_iff:
  "((\<exists>msg. run_checks con config = Inl (DataQualityError msg)) \<longleftrightarrow>
      (infrastructure_failure con config
       \<or> (reports_table (information_schema_tables con ''fct_bookings'')
           \<and> empty_fct_bookings (check5_orphan_rate con))))
   \<and> ((\<exists>failures warnings. run_checks con config = Inr (failures, warnings)) \<longleftrightarrow>
      \<not> (infrastructure_failure con config
         \<or> (reports_table (information_schema_tables con ''fct_bookings'')
             \<and> empty_fct_bookings (check5_orphan_rate con))))
   \<and> (\<forall>e. run_checks con config = Inl e \<longrightarrow> (\<exists>msg. e = DataQualityError msg))"
proof -
  let ?R = "infrastructure_failure con config
      \<or> (reports_table (information_schema_tables con ''fct_bookings'')
          \<and> empty_fct_bookings (check5_orphan_rate con))"
  have a: "(\<exists>e. run_checks con config = Inl e) \<longleftrightarrow> ?R"
    unfolding run_checks_Inl_iff run_checks_try_Inl_iff ..
  have b: "(\<exists>msg. run_checks con config = Inl (DataQualityError msg)) \<longleftrightarrow> (\<exists>e. run_checks con config = Inl e)"
    using run_checks_Inl[of con config] by blast
  have c: "(\<exists>failures warnings. run_checks con config = Inr (failures, warnings)) \<longleftrightarrow> \<not> (\<exists>e. run_checks con config = Inl e)"
    by (cases "run_checks con config") auto
  show ?thesis using a b c run_checks_Inl[of con config] by blast
qed

lemma run_checks_seed_examples:
  "run_checks negative_duration_con None = Inr ([Check1_failure 1], [])
   \<and> \<not> infrastructure_failure negative_duration_con None
   \<and> infrastructure_failure broken_con None
   \<and> run_checks broken_con None = Inl (DataQualityError ''[Check 1: negative durations] DuckDB returned None'')"
proof -
  have r: "run_checks negative_duration_con None = Inr ([Check1_failure 1], [])"
    by (simp add: run_checks_def run_checks_try_def check1_def check4_def check5_def check6_def
        table_exists_def execute_def safe_fetchone_def negative_duration_con_def clean_db_con_def
        MAX_DURATION_MINS_def)
  have n: "\<not> infrastructure_failure negative_duration_con None"
    by (simp add: infrastructure_failure_def negative_duration_con_def clean_db_con_def)
  have i: "infrastructure_failure broken_con None"
    by (simp add: infrastructure_failure_def broken_con_def clean_db_con_def)
  have "run_checks broken_con None = Inl (DataQualityError ''[Check 1: negative durations] DuckDB returned None'')"
    by (simp add: run_checks_def run_checks_try_def check1_def execute_def safe_fetchone_def
        broken_con_def clean_db_con_def)
  with r n i show ?thesis by blast
qed

text \<open>
  Claim C4.  \<open>run_checks\<close> raises \<open>DataQualityError\<close> over a database that shows no
  infrastructure failure.  In \<open>empty_bookings_con\<close> the table \<open>fct_bookings\<close> exists and
  holds no row: every query is answered, the query of Check 5 with the count 0 and the NULL
  sum of no rows.  The specification skips Check 5 for an empty table, and \<open>run_checks\<close> has
  a branch for it (\<open>total_bookings > 0\<close> being false); but the test for NULL values comes
  first, so that the call raises instead of returning the two lists.
\<close>

theorem run_checks_raises_on_empty_fct_bookings:
  "run_checks empty_bookings_con None =
     Inl (DataQualityError ''Check 5: NULL values returned from orphan check'')
   \<and> \<not> infrastructure_failure empty_bookings_con None"
proof -
  have r: "run_checks empty_bookings_con None =
     Inl (DataQualityError ''Check 5: NULL values returned from orphan check'')"
    by (simp add: run_checks_def run_checks_try_def check1_def check4_def check5_def
        table_exists_def execute_def safe_fetchone_def empty_bookings_con_def clean_db_con_def
        MAX_DURATION_MINS_def)
  have n: "\<not> infrastructure_failure empty_bookings_con None"
    by (simp add: infrastructure_failure_def empty_bookings_con_def clean_db_con_def)
  from r n show ?thesis by (rule conjI)
qed

subsection \<open>Check 6\<close>

lemma check1_failures: "check1 con = Inr fs \<Longrightarrow> Check6_failure m a \<notin> set fs"
  by (auto simp: check1_def split: sum.splits option.splits if_splits)

lemma run_checks_Inr:
  "run_checks con config = Inr (failures, warnings) \<Longrightarrow>
     \<exists>f1 w4 w5 f6. check1 con = Inr f1
       \<and> check4 con (case config of Some c \<Rightarrow> dq_max_duration_minutes c | None \<Rightarrow> MAX_DURATION_MINS) = Inr w4
       \<and> check5 con config = Inr w5 \<and> check6 con config = Inr f6
       \<and> failures = f1 @ f6 \<and> warnings = w4 @ w5"
  by (auto simp: run_checks_def run_checks_try_def Let_def split: sum.splits exception.splits)

lemma escape_quotes_roundtrip: "sql_literal_value (escape_quotes t) = t"
proof (induction t)
  case Nil
  then show ?case by (simp add: escape_quotes_def)
next
  case (Cons c t)
  have e: "escape_quotes (c # t) = (if c = CHR 0x27 then [CHR 0x27, CHR 0x27] else [c]) @ escape_quotes t"
    by (simp add: escape_quotes_def)
  show ?case
  proof (cases "c = CHR 0x27")
    case True
    then show ?thesis using Cons e by simp
  next
    case False
    then show ?thesis using Cons e by (cases "escape_quotes t") auto
  qed
qed






subsection \<open>Running without a configuration\<close>

lemma check6_None: "check6 con None = Inr []"
  by (simp add: check6_def)

lemma check4_warnings:
  "check4 con m = Inr ws \<Longrightarrow> Check4_warning n k \<in> set ws \<Longrightarrow>
     k = m \<and> 0 < n \<and> check4_duration_outliers con m = Execute_returns (Some (Fetch_returns (Some (Some n))))"
  by (auto simp: check4_def execute_def safe_fetchone_def split: sum.splits option.splits execute.splits fetch.splits if_splits)

lemma check4_no_check5: "check4 con m = Inr ws \<Longrightarrow> Check5_warning a b c \<notin> set ws"
  by (auto simp: check4_def split: sum.splits option.splits if_splits)

lemma check5_no_check4: "check5 con config = Inr ws \<Longrightarrow> Check4_warning a b \<notin> set ws"
  by (auto simp: check5_def Let_def split: sum.splits option.splits if_splits prod.splits)

lemma check5_warnings_None:
  "check5 con None = Inr ws \<Longrightarrow> Check5_warning orphan_count total_bookings threshold \<in> set ws \<Longrightarrow>
     threshold = 5 / 100 \<and> real_of_int orphan_count / real_of_int total_bookings > 5 / 100"
  by (auto simp: check5_def Let_def split: sum.splits option.splits if_splits prod.splits)

lemma run_checks_None_eq:
  assumes "dq_max_duration_minutes cfg = 240" and "dq_max_orphan_rate cfg = 5 / 100"
      and "tiers_group_a cfg = []" and "tiers_group_b cfg = []"
  shows "run_checks con None = run_checks con (Some cfg)"
proof -
  have 5: "check5 con None = check5 con (Some cfg)"
    by (simp add: check5_def assms(2) split: sum.splits option.splits prod.splits)
  have 6: "check6 con None = check6 con (Some cfg)"
    by (simp add: check6_def assms(3,4))
  show ?thesis
    unfolding run_checks_def run_checks_try_def 5 6
    by (simp add: assms(1) MAX_DURATION_MINS_def)
qed

text \<open>
  Claim C10.  Without a configuration, no Check 6 failure is among the failures returned; a
  duration-outlier warning reports the count that the outlier query gives for 240 minutes,
  and an orphan-rate warning is raised against the threshold 0.05.  The run is the run with a
  configuration that names no tier and carries the thresholds 240 and 0.05.
\<close>

theorem no_config_skips_check6_and_uses_fallbacks:
  "(\<forall>failures warnings. run_checks con None = Inr (failures, warnings) \<longrightarrow>
      (\<forall>missing available. Check6_failure missing available \<notin> set failures)
      \<and> (\<forall>n k. Check4_warning n k \<in> set warnings \<longrightarrow>
            k = 240 \<and> 0 < n \<and> check4_duration_outliers con 240 = Execute_returns (Some (Fetch_returns (Some (Some n)))))
      \<and> (\<forall>orphan_count total_bookings threshold. Check5_warning orphan_count total_bookings threshold \<in> set warnings \<longrightarrow>
            threshold = 5 / 100 \<and> real_of_int orphan_count / real_of_int total_bookings > 5 / 100))
   \<and> (dq_max_duration_minutes cfg = 240 \<and> dq_max_orphan_rate cfg = 5 / 100
        \<and> tiers_group_a cfg = [] \<and> tiers_group_b cfg = []
      \<longrightarrow> run_checks con None = run_checks con (Some cfg))"
proof -
  have A: "(\<forall>missing available. Check6_failure missing available \<notin> set failures)
      \<and> (\<forall>n k. Check4_warning n k \<in> set warnings \<longrightarrow>
            k = 240 \<and> 0 < n \<and> check4_duration_outliers con 240 = Execute_returns (Some (Fetch_returns (Some (Some n)))))
      \<and> (\<forall>orphan_count total_bookings threshold. Check5_warning orphan_count total_bookings threshold \<in> set warnings \<longrightarrow>
            threshold = 5 / 100 \<and> real_of_int orphan_count / real_of_int total_bookings > 5 / 100)"
    if r: "run_checks con None = Inr (failures, warnings)" for failures warnings
  proof -
    from run_checks_Inr[OF r] obtain f1 w4 w5 f6 where
      f1: "check1 con = Inr f1" and w4: "check4 con 240 = Inr w4" and w5: "check5 con None = Inr w5"
      and f6: "check6 con None = Inr f6" and fs: "failures = f1 @ f6" and ws: "warnings = w4 @ w5"
      by (auto simp: MAX_DURATION_MINS_def)
    have f6': "f6 = []" using f6 by (simp add: check6_None)
    have 1: "Check6_failure m a \<notin> set failures" for m a
      using check1_failures[OF f1] unfolding fs f6' by simp
    have 2: "k = 240 \<and> 0 < n \<and> check4_duration_outliers con 240 = Execute_returns (Some (Fetch_returns (Some (Some n))))"
      if "Check4_warning n k \<in> set warnings" for n k
    proof -
      from that have "Check4_warning n k \<in> set w4" unfolding ws using check5_no_check4[OF w5] by auto
      from check4_warnings[OF w4 this] show ?thesis .
    qed
    have 3: "threshold = 5 / 100 \<and> real_of_int orphan_count / real_of_int total_bookings > 5 / 100"
      if "Check5_warning orphan_count total_bookings threshold \<in> set warnings" for orphan_count total_bookings threshold
    proof -
      from that have "Check5_warning orphan_count total_bookings threshold \<in> set w5" unfolding ws using check4_no_check5[OF w4] by auto
      from check5_warnings_None[OF w5 this] show ?thesis .
    qed
    show ?thesis using 1 2 3 by blast
  qed
  show ?thesis using A run_checks_None_eq[of cfg con] by blast
qed

theorem no_config_skips_check6_and_uses_fallbacks_witness:
  "dq_max_duration_minutes no_tiers_config = 240 \<and> dq_max_orphan_rate no_tiers_config = 5 / 100
   \<and> tiers_group_a no_tiers_config = [] \<and> tiers_group_b no_tiers_config = []
   \<and> run_checks outlier_con None = Inr ([], [Check4_warning 1 240, Check5_warning 1 10 (5 / 100)])
   \<and> run_checks outlier_con (Some no_tiers_config) = Inr ([], [Check4_warning 1 240, Check5_warning 1 10 (5 / 100)])"
proof -
  have pre: "dq_max_duration_minutes no_tiers_config = 240 \<and> dq_max_orphan_rate no_tiers_config = 5 / 100
       \<and> tiers_group_a no_tiers_config = [] \<and> tiers_group_b no_tiers_config = []"
    by (simp add: no_tiers_config_def default_config_def)
  have r: "run_checks outlier_con None = Inr ([], [Check4_warning 1 240, Check5_warning 1 10 (5 / 100)])"
    by (simp add: run_checks_def run_checks_try_def check1_def check4_def check5_def check6_def
        table_exists_def execute_def safe_fetchone_def outlier_con_def clean_db_con_def
        MAX_DURATION_MINS_def)
  have "run_checks outlier_con None = run_checks outlier_con (Some no_tiers_config)"
    using no_config_skips_check6_and_uses_fallbacks[of outlier_con no_tiers_config] pre by blast
  with r pre show ?thesis by simp
qed

section \<open>Properties of the ingestion\<close>

lemma incremental_insert_table:
  "fst (incremental_insert table df) = table @ filter (NOT_EXISTS table) df"
  by (simp add: incremental_insert_def Let_def)

lemma incremental_insert_count:
  "snd (incremental_insert table df) = length (filter (NOT_EXISTS table) df)"
  by (simp add: incremental_insert_def Let_def)

lemma sql_equal_refl: "k \<noteq> None \<Longrightarrow> sql_equal k k"
  by (cases k) auto

lemma NOT_EXISTS_after_insert:
  assumes "s \<in> set df" and "fst s \<noteq> None"
  shows "\<not> NOT_EXISTS (table @ filter (NOT_EXISTS table) df) s"
proof (cases "NOT_EXISTS table s")
  case True
  then have "s \<in> set (filter (NOT_EXISTS table) df)" using assms(1) by simp
  then show ?thesis
    using sql_equal_refl[OF assms(2)] by (auto simp: NOT_EXISTS_def list_ex_iff)
next
  case False
  then show ?thesis by (auto simp: NOT_EXISTS_def list_ex_iff)
qed

lemma incremental_insert_idempotent:
  assumes "\<forall>s \<in> set df. fst s \<noteq> None"
  shows "incremental_insert (fst (incremental_insert table df)) df = (fst (incremental_insert table df), 0)"
proof -
  have "filter (NOT_EXISTS (table @ filter (NOT_EXISTS table) df)) df = []"
    unfolding filter_empty_conv using assms NOT_EXISTS_after_insert by blast
  then show ?thesis
    unfolding incremental_insert_table by (simp add: incremental_insert_def)
qed

lemma incremental_insert_after_create:
  assumes "\<forall>s \<in> set df. fst s \<noteq> None"
  shows "incremental_insert df df = (df, 0)"
proof -
  have "\<not> NOT_EXISTS df s" if "s \<in> set df" for s
  proof -
    from that assms have "sql_equal (fst s) (fst s)" by (auto intro: sql_equal_refl)
    with that show ?thesis unfolding NOT_EXISTS_def list_ex_iff by blast
  qed
  then have "filter (NOT_EXISTS df) df = []"
    unfolding filter_empty_conv by blast
  then show ?thesis by (simp add: incremental_insert_def)
qed

lemma ingest_users_frame_keys: "\<forall>s \<in> set (users_frame cast_Int64 src). fst s \<noteq> None"
proof -
  have sub: "set (unique_first rows) \<subseteq> set rows" for rows :: "(int option \<times> 'a) list"
    by (induction rows rule: unique_first.induct) auto
  show ?thesis
    unfolding users_frame_def Let_def using sub by fastforce
qed

lemma ingest_users_idempotent:
  "ingest_users cast_Int64 (fst (ingest_users cast_Int64 con src)) src = (fst (ingest_users cast_Int64 con src), 0)"
proof (cases "raw_users_table con")
  case None
  then show ?thesis
    using incremental_insert_after_create[OF ingest_users_frame_keys[of cast_Int64 src]]
    by (simp add: ingest_users_def Let_def)
next
  case (Some table)
  obtain t n where tn: "incremental_insert table (users_frame cast_Int64 src) = (t, n)"
    by (cases "incremental_insert table (users_frame cast_Int64 src)")
  then have "incremental_insert t (users_frame cast_Int64 src) = (t, 0)"
    using incremental_insert_idempotent[OF ingest_users_frame_keys[of cast_Int64 src], where table=table]
    by simp
  with Some tn show ?thesis
    by (simp add: ingest_users_def Let_def)
qed

lemma ingest_events_idempotent:
  assumes "\<forall>s \<in> set (events_frame cast_Int64 events). fst s \<noteq> None"
  shows "ingest_events cast_Int64 (fst (ingest_events cast_Int64 con events)) events
           = (fst (ingest_events cast_Int64 con events), 0)"
proof (cases "raw_events_table con")
  case None
  then show ?thesis
    using incremental_insert_after_create[OF assms]
    by (simp add: ingest_events_def Let_def)
next
  case (Some table)
  obtain t n where tn: "incremental_insert table (events_frame cast_Int64 events) = (t, n)"
    by (cases "incremental_insert table (events_frame cast_Int64 events)")
  then have "incremental_insert t (events_frame cast_Int64 events) = (t, 0)"
    using incremental_insert_idempotent[OF assms, where table=table]
    by simp
  with Some tn show ?thesis
    by (simp add: ingest_events_def Let_def)
qed

lemma ingest_mentors_full_replace:
  assumes "ingest_mentors strip_chars to_titlecase con src = Inr con'"
  shows "ingest_mentors strip_chars to_titlecase con' src = Inr con'
         \<and> (\<exists>rows. raw_mentors_table con' = Some rows \<and> length rows = length src)"
  using assms
  by (auto simp: ingest_mentors_def mentors_frame_def Let_def split: if_splits)

text \<open>
  Claim C9.  Ingesting a user source twice inserts no row the second time and leaves
  \<open>raw_users\<close> as it was (\<open>ingest_users_idempotent\<close>), and so does an event source whose
  staged events all carry an \<open>event_id\<close> (\<open>ingest_events_idempotent\<close>); the mentor
  ingestion replaces the table, so that a second run leaves the same rows, as many as the
  source has (\<open>ingest_mentors_full_replace\<close>).  The claim fails for an event without an
  \<open>event_id\<close>: \<open>r.event_id = s.event_id\<close> never holds for a NULL, so that \<open>NOT EXISTS\<close>
  keeps the event each time.  For the events file \<open>null_id_events\<close> the first ingestion
  creates the table with two rows, and the second one inserts one row more.
\<close>

theorem reingesting_event_without_id_inserts_it_again:
  "ingest_events cast_digit empty_warehouse null_id_events =
     (empty_warehouse\<lparr>raw_events_table :=
        Some [(None, Some 1, ''session_started''), (Some ''e2'', Some 1, ''session_ended'')]\<rparr>, 2)
   \<and> ingest_events cast_digit (fst (ingest_events cast_digit empty_warehouse null_id_events)) null_id_events =
     (empty_warehouse\<lparr>raw_events_table :=
        Some [(None, Some 1, ''session_started''), (Some ''e2'', Some 1, ''session_ended''),
              (None, Some 1, ''session_started'')]\<rparr>, 1)"
  by (simp add: ingest_events_def events_frame_def null_id_events_def cast_digit_def empty_warehouse_def
      incremental_insert_def NOT_EXISTS_def Let_def)

section \<open>Properties of the step timeout guard\<close>

text \<open>
  Claim C8.  When the timeout is \<open>None\<close> or zero, \<open>__enter__\<close> starts no watcher, and no
  cancellation is ever delivered, whenever the block ends or if it never does (\<open>_watchdog\<close>
  itself would return at once).  When the block ends, and \<open>__exit__\<close> sets \<open>_done\<close>, before
  the timeout has elapsed, the first wait of the watcher succeeds and it returns: neither the
  soft kill nor the hard kill occurs.
\<close>

theorem disabled_or_timely_guard_never_cancels:
  "(timeout_seconds = None \<or> timeout_seconds = Some 0 \<longrightarrow>
      watcher (StepTimer_enter (StepTimer_init name timeout_seconds) ident) = False
      \<and> watchdog (StepTimer_enter (StepTimer_init name timeout_seconds) ident) done_at = []
      \<and> guard name timeout_seconds ident done_at = [])
   \<and> (timeout_seconds = Some seconds \<and> done_at = Some t \<and> t < seconds \<longrightarrow>
      watchdog (StepTimer_enter (StepTimer_init name timeout_seconds) ident) done_at = []
      \<and> guard name timeout_seconds ident done_at = [])"
  by (auto simp: guard_def watchdog_def StepTimer_enter_def StepTimer_init_def truthy_def Event_wait_def Let_def)

theorem disabled_or_timely_guard_never_cancels_witness:
  "guard ''Full pipeline'' None 1 None = []
   \<and> guard ''Full pipeline'' (Some 0) 1 None = []
   \<and> watcher (StepTimer_enter (StepTimer_init ''Full pipeline'' (Some 0)) 1) = False
   \<and> (12::real) < 300
   \<and> guard ''Full pipeline'' (Some 300) 1 (Some 12) = []
   \<and> guard ''Full pipeline'' (Some 300) 1 (Some 305) = [Soft_kill]
   \<and> guard ''Full pipeline'' (Some 300) 1 None = [Soft_kill, Hard_kill]"
proof -
  have a: "guard ''Full pipeline'' None 1 None = []"
    using disabled_or_timely_guard_never_cancels[of None "''Full pipeline''" 1 None] by blast
  have b: "guard ''Full pipeline'' (Some 0) 1 None = []
           \<and> watcher (StepTimer_enter (StepTimer_init ''Full pipeline'' (Some 0)) 1) = False"
    using disabled_or_timely_guard_never_cancels[of "Some 0" "''Full pipeline''" 1 None] by blast
  have lt: "(12::real) < 300" by simp
  have c: "guard ''Full pipeline'' (Some 300) 1 (Some 12) = []"
    using disabled_or_timely_guard_never_cancels[of "Some 300" "''Full pipeline''" 1 "Some 12" 300 12] lt by blast
  have d: "guard ''Full pipeline'' (Some 300) 1 (Some 305) = [Soft_kill]"
    by (simp add: guard_def watchdog_def StepTimer_enter_def StepTimer_init_def truthy_def Event_wait_def GRACE_SECONDS_def)
  have e: "guard ''Full pipeline'' (Some 300) 1 None = [Soft_kill, Hard_kill]"
    by (simp add: guard_def watchdog_def StepTimer_enter_def StepTimer_init_def truthy_def Event_wait_def GRACE_SECONDS_def)
  show ?thesis using a b lt c d e by blast
qed

section \<open>Properties of the Wilson interval\<close>

lemma wilson_ci_no_trials: "wilson_ci k 0 z = Inr (0, 0)"
  by (simp add: wilson_ci_def)

lemmas float_eval = float_def exponent_def pow2_def round_half_even_def bitlength.simps Let_def

lemma z_95_value: "z_95 = 2206763817411543 / 1125899906842624"
  by (simp add: z_95_def float_eval)

lemma w_z2: "f64_mul (2206763817411543 / 1125899906842624) (2206763817411543 / 1125899906842624) = 135164283816457 / 35184372088832"
  by (simp add: f64_mul_def float_eval)

lemma w_z2_n: "f64_div (135164283816457 / 35184372088832) 5 = 3460205665701299 / 4503599627370496"
  by (simp add: f64_div_def float_eval)

lemma w_denom: "f64_add 1 (3460205665701299 / 4503599627370496) = 7963805293071795 / 4503599627370496"
  by (simp add: f64_add_def float_eval)

lemma w_z2_2n: "f64_div (135164283816457 / 35184372088832) 10 = 3460205665701299 / 9007199254740992"
  by (simp add: f64_div_def float_eval)

lemma w_p_plus: "f64_add 1 (3460205665701299 / 9007199254740992) = 3116851230110573 / 2251799813685248"
  by (simp add: f64_add_def float_eval)

lemma w_centre: "f64_div (3116851230110573 / 2251799813685248) (7963805293071795 / 4503599627370496) = 7050423520879871 / 9007199254740992"
  by (simp add: f64_div_def float_eval)

lemma w_z2_4n2: "f64_div (135164283816457 / 35184372088832) 100 = 5536329065122079 / 144115188075855872"
  by (simp add: f64_div_def float_eval)

lemma w_isqrt: "isqrt 12765905671518331631194113423966208 = 112986307451471001"
  by (simp add: isqrt.simps Let_def)

lemma w_sqrt: "f64_sqrt (5536329065122079 / 144115188075855872) = 3530822107858469 / 18014398509481984"
  by (simp add: f64_sqrt_def w_isqrt float_eval)

lemma w_z_sqrt: "f64_mul (2206763817411543 / 1125899906842624) (3530822107858469 / 18014398509481984) = 6920411331402599 / 18014398509481984"
  by (simp add: f64_mul_def float_eval)

lemma w_margin: "f64_div (6920411331402599 / 18014398509481984) (7963805293071795 / 4503599627370496) = 7827102935444489 / 36028797018963968"
  by (simp add: f64_div_def float_eval)

lemma w_lower: "f64_sub (7050423520879871 / 9007199254740992) (7827102935444489 / 36028797018963968) = 5093647787018749 / 9007199254740992"
  by (simp add: f64_sub_def float_eval)

lemma w_upper: "f64_add (7050423520879871 / 9007199254740992) (7827102935444489 / 36028797018963968) = 4503599627370497 / 4503599627370496"
  by (simp add: f64_add_def float_eval)

lemma w_lower_pct: "f64_mul (5093647787018749 / 9007199254740992) 100 = 7958824667216795 / 140737488355328"
  by (simp add: f64_mul_def float_eval)

lemma w_upper_pct: "f64_mul (4503599627370497 / 4503599627370496) 100 = 3518437208883201 / 35184372088832"
  by (simp add: f64_mul_def float_eval)

lemma w_exact:
  "float 1 = 1" "float 5 = 5" "float 10 = 10" "float 100 = 100"
  "f64_sub 1 1 = 0" "f64_mul 1 0 = 0" "f64_div 0 5 = 0"
  "f64_add 0 (5536329065122079 / 144115188075855872) = 5536329065122079 / 144115188075855872"
  by (simp_all add: f64_sub_def f64_mul_def f64_div_def f64_add_def float_eval)

text \<open>
  Claim C3.  For \<open>n = 0\<close> the function returns \<open>(0.0, 0.0)\<close> (\<open>wilson_ci_no_trials\<close>).
  The claim bounds the upper end of the interval by 100: it reads the upper end as
  \<open>min(1, centre + margin)\<close> scaled to a percentage.  The code computes
  \<open>min(100.0, centre + margin) * 100\<close>: the bound 100 is applied to the proportion, before
  the scaling, where it never binds.  In exact arithmetic \<open>centre + margin\<close> is 1 for
  \<open>k = n\<close>; in floating point the sum can round above 1.  For \<open>k = n = 5\<close> the lemmas above
  follow the evaluation operation by operation: \<open>centre + margin\<close> is \<open>1 + 2^-52\<close>, and
  the upper end returned is \<open>3518437208883201 / 35184372088832\<close>, the float that Python
  prints as 100.00000000000003, which is more than 100.
\<close>

theorem wilson_upper_end_exceeds_100:
  "wilson_ci 5 5 z_95 = Inr (7958824667216795 / 140737488355328, 3518437208883201 / 35184372088832)
   \<and> (100::real) < 3518437208883201 / 35184372088832"
  by (simp add: wilson_ci_def Let_def z_95_value w_exact w_z2 w_z2_n w_denom w_z2_2n w_p_plus w_centre
      w_z2_4n2 w_sqrt w_z_sqrt w_margin w_lower w_upper w_lower_pct w_upper_pct)

end
